theory Spec2Isabelle
  imports Main "HOL-Library.Multiset"
begin

section \<open>Data model\<close>

text \<open>
  The card game engine of \<^verbatim>\<open>game-actions.js\<close> (the action handlers) and
  \<^verbatim>\<open>server/game-logic/validation.js\<close> (the validators), with the types of
  \<^verbatim>\<open>types/gameTypes.ts\<close>.

  \<^verbatim>\<open>CardRank = 'A' | '2' | ... | '10' | 'J' | 'Q' | 'K'\<close> and
  \<^verbatim>\<open>CardSuit\<close> (spades, hearts, diamonds, clubs) are enumerations. A card
  carries an optional \<^verbatim>\<open>source\<close> tag, set while the card sits in a temporary
  stack. The handlers compare cards by rank and suit only.
\<close>

datatype rank = Ace | R2 | R3 | R4 | R5 | R6 | R7 | R8 | R9 | R10 | Jack | Queen | King

datatype suit = Spades | Hearts | Diamonds | Clubs

datatype source = FromHand | FromTable | FromCaptured | FromOpponentCapture | FromTemporaryStack

record card =
  rank :: rank
  suit :: suit
  source :: "source option"

text \<open>\<^verbatim>\<open>a.rank === b.rank && a.suit === b.suit\<close>\<close>

definition sameCard :: "card \<Rightarrow> card \<Rightarrow> bool" where
  "sameCard a b \<longleftrightarrow> rank a = rank b \<and> suit a = suit b"

text \<open>\<^verbatim>\<open>{ ...card, source: s }\<close> and \<^verbatim>\<open>({ source, ...card }) => card\<close>
  (also \<^verbatim>\<open>delete cardData.source\<close>).\<close>

definition tagged :: "source \<Rightarrow> card \<Rightarrow> card" where
  "tagged src c = c\<lparr>source := Some src\<rparr>"

definition stripSource :: "card \<Rightarrow> card" where
  "stripSource c = c\<lparr>source := None\<rparr>"

record build =
  buildId :: string
  cards :: "card list"
  "value" :: nat
  owner :: nat
  isExtendable :: bool

record temporaryStack =
  stackId :: string
  cards :: "card list"
  owner :: nat

text \<open>\<^verbatim>\<open>TableEntity = Card | Build | TemporaryStack\<close>; a loose card is the
  entity without a \<^verbatim>\<open>type\<close> field.\<close>

datatype tableEntity = Loose card | Build build | TemporaryStack temporaryStack

record scoreDetail =
  mostCards :: nat
  mostSpades :: nat
  bigCasino :: nat
  littleCasino :: nat
  aces :: nat
  total :: nat
  cardCount :: nat
  spadeCount :: nat

record gameState =
  currentPlayer :: nat
  playerHands :: "card list list"
  tableCards :: "tableEntity list"
  playerCaptures :: "card list list list"
  deck :: "card list"
  round :: nat
  gameOver :: bool
  scores :: "nat list option"
  scoreDetails :: "scoreDetail list option"
  lastCapturer :: "nat option"
  winner :: "nat option"

text \<open>Reading a property of \<^verbatim>\<open>undefined\<close>, or spreading it, throws.\<close>

datatype error = TypeError

text \<open>
  \<^verbatim>\<open>updateGameState(gameState, updates)\<close> is a record update, written inline in
  each handler. \<^verbatim>\<open>nextPlayer\<close> belongs to \<^verbatim>\<open>game-state.js\<close>,
  which is not among the sources.

  Modelled from the spec: \<^verbatim>\<open>nextPlayer\<close> is missing; the turn logic is
  \<^verbatim>\<open>(currentPlayer + 1) % 2\<close> (INDEXING_STANDARDIZATION_PLAN.md), which is
  \<^verbatim>\<open>currentPlayer = 1 - currentPlayer\<close> on the player indices 0 and 1.
\<close>

definition nextPlayer :: "gameState \<Rightarrow> gameState" where
  "nextPlayer s = s\<lparr>currentPlayer := (currentPlayer s + 1) mod 2\<rparr>"

section \<open>Card operations\<close>

text \<open>
  \<^verbatim>\<open>card-operations.js\<close> and \<^verbatim>\<open>algorithms.js\<close> are not among the
  sources. The four functions below whose results the handlers only pass on are taken as
  parameters, so that every statement about a handler holds for any implementation of
  them: \<^verbatim>\<open>rankValue(rank)\<close>, \<^verbatim>\<open>canPartitionIntoSums(cards, target)\<close>,
  \<^verbatim>\<open>sortCardsByRank(cards)\<close> and
  \<^verbatim>\<open>createCaptureStack(capturingCard, capturedCards, opponentCard)\<close>.
\<close>

record helpers =
  rankValue :: "rank \<Rightarrow> nat"
  canPartitionIntoSums :: "card list \<Rightarrow> nat \<Rightarrow> bool"
  sortCardsByRank :: "card list \<Rightarrow> card list"
  createCaptureStack :: "card \<Rightarrow> card list \<Rightarrow> card option \<Rightarrow> card list"

text \<open>Modelled from the spec: \<^verbatim>\<open>calculateCardSum\<close> is missing; it is the sum
  utility of the card primitives, the sum of the rank values of the cards.\<close>

definition calculateCardSum :: "helpers \<Rightarrow> card list \<Rightarrow> nat" where
  "calculateCardSum h cs = sum_list (map (\<lambda>c. rankValue h (rank c)) cs)"

text \<open>JavaScript array reads and writes: \<^verbatim>\<open>xs[i]\<close> is \<^verbatim>\<open>undefined\<close>
  (\<open>None\<close>) out of range, and \<^verbatim>\<open>xs[i] = v\<close> extends the array, the skipped
  positions being holes, which the handlers read as empty (\<^verbatim>\<open>xs[i] || []\<close>).\<close>

definition at :: "'a list \<Rightarrow> nat \<Rightarrow> 'a option" where
  "at xs i = (if i < length xs then Some (xs ! i) else None)"

definition setAt :: "'a list list \<Rightarrow> nat \<Rightarrow> 'a list \<Rightarrow> 'a list list" where
  "setAt xs i v = (if i < length xs then xs[i := v] else xs @ replicate (i - length xs) [] @ [v])"

text \<open>\<^verbatim>\<open>findIndex\<close>, with \<open>None\<close> for -1.\<close>

fun findIndex :: "('a \<Rightarrow> bool) \<Rightarrow> 'a list \<Rightarrow> nat option" where
  "findIndex P [] = None"
| "findIndex P (x # xs) = (if P x then Some 0 else map_option Suc (findIndex P xs))"

fun removeFirst :: "('a \<Rightarrow> bool) \<Rightarrow> 'a list \<Rightarrow> 'a list" where
  "removeFirst P [] = []"
| "removeFirst P (x # xs) = (if P x then xs else x # removeFirst P xs)"

text \<open>
  Modelled from the spec: \<^verbatim>\<open>removeCardFromHand(playerHands, currentPlayer, card)\<close>
  is missing. It is the removal utility of the card primitives: two cards are equal iff
  rank and suit match, and a hand changes only by removing or adding whole cards. The
  handlers read its result as \<^verbatim>\<open>null\<close> (card not found) or
  \<^verbatim>\<open>{ updatedHands, cardRemoved }\<close>. The first card of the player's hand with
  the rank and suit of \<open>card\<close> is removed; a player without a hand has no such card.
\<close>

definition removeCardFromHand :: "card list list \<Rightarrow> nat \<Rightarrow> card \<Rightarrow> (card list list \<times> card) option" where
  "removeCardFromHand hands p c =
     (case at hands p of
        None \<Rightarrow> None
      | Some hand \<Rightarrow>
          (case find (sameCard c) hand of
             None \<Rightarrow> None
           | Some c' \<Rightarrow> Some (hands[p := removeFirst (sameCard c) hand], c')))"

text \<open>
  The test with which \<^verbatim>\<open>handleCapture\<close> removes the captured items from the
  table: builds match by \<^verbatim>\<open>buildId\<close>, temporary stacks by
  \<^verbatim>\<open>stackId\<close>, loose cards by rank and suit.
\<close>

fun matchesItem :: "tableEntity \<Rightarrow> tableEntity \<Rightarrow> bool" where
  "matchesItem (Build b) (Build b') = (buildId b = buildId b')"
| "matchesItem (TemporaryStack st) (TemporaryStack st') = (stackId st = stackId st')"
| "matchesItem (Loose c) (Loose c') = sameCard c c'"
| "matchesItem _ _ = False"

text \<open>
  Modelled from the spec: \<^verbatim>\<open>removeCardsFromTable(tableCards, items)\<close> is missing.
  It is the removal utility for the table and returns a new array without the given items;
  items are identified as in the removal that \<^verbatim>\<open>handleCapture\<close> writes out.
\<close>

definition removeCardsFromTable :: "tableEntity list \<Rightarrow> tableEntity list \<Rightarrow> tableEntity list" where
  "removeCardsFromTable tableCards' items =
     filter (\<lambda>item. \<not> list_ex (matchesItem item) items) tableCards'"

fun isBuild :: "tableEntity \<Rightarrow> bool" where
  "isBuild (Build b) = True"
| "isBuild _ = False"

fun isTemporaryStack :: "tableEntity \<Rightarrow> bool" where
  "isTemporaryStack (TemporaryStack st) = True"
| "isTemporaryStack _ = False"

text \<open>\<^verbatim>\<open>s => s.type === 'temporary_stack' && s.owner === currentPlayer\<close>\<close>

fun stackOwnedBy :: "nat \<Rightarrow> tableEntity \<Rightarrow> bool" where
  "stackOwnedBy p (TemporaryStack st) = (temporaryStack.owner st = p)"
| "stackOwnedBy p _ = False"

text \<open>\<^verbatim>\<open>item => item.type === 'build' && item.owner === playerIndex\<close>\<close>

fun buildOwnedBy :: "nat \<Rightarrow> tableEntity \<Rightarrow> bool" where
  "buildOwnedBy p (Build b) = (build.owner b = p)"
| "buildOwnedBy p _ = False"

text \<open>\<^verbatim>\<open>s => s.stackId !== stack.stackId\<close>: loose cards and builds have no
  \<^verbatim>\<open>stackId\<close> and are kept.\<close>

fun notStack :: "string \<Rightarrow> tableEntity \<Rightarrow> bool" where
  "notStack sid (TemporaryStack st) = (stackId st \<noteq> sid)"
| "notStack sid _ = True"

fun notBuild :: "string \<Rightarrow> tableEntity \<Rightarrow> bool" where
  "notBuild bid (Build b) = (buildId b \<noteq> bid)"
| "notBuild bid _ = True"

section \<open>Validators\<close>

text \<open>The messages of the validators, with the numbers they interpolate.\<close>

datatype reason =
    OneActiveBuild
  | NoCardToCaptureLater nat
  | OpponentHasSameBuild nat
  | CannotTrailWithActiveBuild
  | NotOnOwnBuild
  | ExtendWhileOwningBuild
  | CannotBeExtended
  | OverTen nat
  | MustHaveInHand nat

record validationResult =
  valid :: bool
  message :: "reason option"
  newValue :: "nat option"

definition accept :: "nat option \<Rightarrow> validationResult" where
  "accept v = \<lparr>valid = True, message = None, newValue = v\<rparr>"

definition reject :: "reason \<Rightarrow> validationResult" where
  "reject r = \<lparr>valid = False, message = Some r, newValue = None\<rparr>"

text \<open>\<^verbatim>\<open>hasActiveBuild\<close>: every build carries \<^verbatim>\<open>isExtendable\<close>, so
  \<^verbatim>\<open>item.isExtendable !== undefined\<close> holds of each of them.\<close>

definition hasActiveBuild :: "tableEntity list \<Rightarrow> nat \<Rightarrow> bool" where
  "hasActiveBuild tableCards' playerIndex = list_ex (buildOwnedBy playerIndex) tableCards'"

definition validateBuild :: "helpers \<Rightarrow> card list \<Rightarrow> card \<Rightarrow> nat \<Rightarrow> tableEntity list \<Rightarrow> nat \<Rightarrow> validationResult" where
  "validateBuild h playerHand playerCard buildValue tableCards' playerIndex =
     (if hasActiveBuild tableCards' playerIndex then reject OneActiveBuild
      else if \<not> list_ex (\<lambda>c. rankValue h (rank c) = buildValue
                 \<and> (rank c \<noteq> rank playerCard \<or> suit c \<noteq> suit playerCard)) playerHand
        then reject (NoCardToCaptureLater buildValue)
      else if list_ex (\<lambda>item. case item of
                 Build b \<Rightarrow> build.owner b \<noteq> playerIndex \<and> value b = buildValue
               | _ \<Rightarrow> False) tableCards'
        then reject (OpponentHasSameBuild buildValue)
      else accept None)"

definition validateTrail :: "tableEntity list \<Rightarrow> card \<Rightarrow> nat \<Rightarrow> nat \<Rightarrow> validationResult" where
  "validateTrail tableCards' c playerIndex round' =
     (if round' = 1 \<and> hasActiveBuild tableCards' playerIndex then reject CannotTrailWithActiveBuild
      else if hasActiveBuild tableCards' playerIndex then reject OneActiveBuild
      else accept None)"

definition validateAddToOpponentBuild :: "helpers \<Rightarrow> build \<Rightarrow> card \<Rightarrow> card list \<Rightarrow> tableEntity list \<Rightarrow> nat \<Rightarrow> validationResult" where
  "validateAddToOpponentBuild h b playerCard playerHand tableCards' playerIndex =
     (if build.owner b = playerIndex then reject NotOnOwnBuild
      else if hasActiveBuild tableCards' playerIndex then reject ExtendWhileOwningBuild
      else if \<not> isExtendable b \<or> length (build.cards b) \<ge> 5 then reject CannotBeExtended
      else (let newValue' = value b + rankValue h (rank playerCard) in
            if newValue' > 10 then reject (OverTen newValue')
            else if \<not> list_ex (\<lambda>c. rankValue h (rank c) = newValue'
                       \<and> (rank c \<noteq> rank playerCard \<or> suit c \<noteq> suit playerCard)) playerHand
              then reject (MustHaveInHand newValue')
            else accept (Some newValue')))"

definition validateTemporaryStackBuild :: "helpers \<Rightarrow> temporaryStack \<Rightarrow> card \<Rightarrow> card list \<Rightarrow> tableEntity list \<Rightarrow> nat \<Rightarrow> validationResult" where
  "validateTemporaryStackBuild h stack handCard playerHand tableCards' currentPlayer' =
     (let remainingHand = filter (\<lambda>c. rank c \<noteq> rank handCard \<or> suit c \<noteq> suit handCard) playerHand;
          stackValue = calculateCardSum h (temporaryStack.cards stack);
          handCardValue = rankValue h (rank handCard)
      in if stackValue = handCardValue then
           (if \<not> list_ex (\<lambda>c. rankValue h (rank c) = stackValue) remainingHand
            then reject (MustHaveInHand stackValue)
            else accept (Some stackValue))
         else (let newBuildValue = stackValue + handCardValue in
               if newBuildValue > 10 then reject (OverTen newBuildValue)
               else if \<not> list_ex (\<lambda>c. rankValue h (rank c) = newBuildValue) remainingHand
                 then reject (MustHaveInHand newBuildValue)
               else accept (Some newBuildValue)))"

text \<open>\<^verbatim>\<open>[...new Set(xs)]\<close> keeps the first occurrence of each value, in order.\<close>

definition uniqueValues :: "nat list \<Rightarrow> nat list" where
  "uniqueValues xs = rev (remdups (rev xs))"

definition findPossibleBuildsFromStack :: "helpers \<Rightarrow> temporaryStack \<Rightarrow> card list \<Rightarrow> tableEntity list \<Rightarrow> nat \<Rightarrow> nat list" where
  "findPossibleBuildsFromStack h stack playerHand tableCards' currentPlayer' =
     (if hasActiveBuild tableCards' currentPlayer' then []
      else (case filter (\<lambda>c. source c = Some FromHand) (temporaryStack.cards stack) of
              [handCardUsed] \<Rightarrow>
                (let remainingHand = filter (\<lambda>c. rank c \<noteq> rank handCardUsed \<or> suit c \<noteq> suit handCardUsed) playerHand
                 in if remainingHand = [] then []
                    else (let potentialBuildValues = uniqueValues (map (\<lambda>c. rankValue h (rank c)) remainingHand);
                              cardsToBuildWith = map stripSource (temporaryStack.cards stack)
                          in filter (\<lambda>v. canPartitionIntoSums h cardsToBuildWith v) potentialBuildValues))
            | _ \<Rightarrow> []))"

section \<open>Action handlers\<close>

text \<open>
  The handlers of \<^verbatim>\<open>game-actions.js\<close>. \<^verbatim>\<open>generateBuildId()\<close> and
  \<^verbatim>\<open>`temp-${Date.now()}`\<close> read a counter and the clock: the identifier they
  produce is an argument of the handler (\<open>newId\<close>). A handler that reads
  \<^verbatim>\<open>playerHands[currentPlayer]\<close> or a capture set directly throws a
  \<^verbatim>\<open>TypeError\<close> when there is none, and returns \<open>error + gameState\<close>.
\<close>

record draggedItem =
  draggedCard :: card
  draggedSource :: source

text \<open>The cards of a table item: \<^verbatim>\<open>item.cards || [item]\<close>.\<close>

fun entityCards :: "tableEntity \<Rightarrow> card list" where
  "entityCards (Loose c) = [c]"
| "entityCards (Build b) = build.cards b"
| "entityCards (TemporaryStack st) = temporaryStack.cards st"

text \<open>\<^verbatim>\<open>tableCards.find(item => item.type === 'build' && item.owner === currentPlayer)\<close>\<close>

fun findOwnBuild :: "nat \<Rightarrow> tableEntity list \<Rightarrow> build option" where
  "findOwnBuild p [] = None"
| "findOwnBuild p (Build b # items) = (if build.owner b = p then Some b else findOwnBuild p items)"
| "findOwnBuild p (_ # items) = findOwnBuild p items"

definition handleTrail :: "gameState \<Rightarrow> card \<Rightarrow> gameState" where
  "handleTrail s c =
     (case removeCardFromHand (playerHands s) (currentPlayer s) c of
        None \<Rightarrow> s
      | Some (updatedHands, cardRemoved) \<Rightarrow>
          nextPlayer (s\<lparr>playerHands := updatedHands,
                        tableCards := tableCards s @ [Loose cardRemoved]\<rparr>))"

text \<open>\<^verbatim>\<open>handleBuild\<close>: \<^verbatim>\<open>validateBuild\<close> reads the hand only after the
  check for an active build.\<close>

definition handleBuild :: "helpers \<Rightarrow> gameState \<Rightarrow> draggedItem \<Rightarrow> card list \<Rightarrow> nat \<Rightarrow> card option \<Rightarrow> card option \<Rightarrow> string \<Rightarrow> error + gameState" where
  "handleBuild h s item tableCardsInBuild buildValue biggerCard smallerCard newId =
     (let playerCard = draggedCard item; cp = currentPlayer s in
      if hasActiveBuild (tableCards s) cp then Inr s
      else (case at (playerHands s) cp of
        None \<Rightarrow> Inl TypeError
      | Some playerHand \<Rightarrow>
          if \<not> valid (validateBuild h playerHand playerCard buildValue (tableCards s) cp) then Inr s
          else (case (if draggedSource item = FromTable
                      then Some (playerHands s, removeCardsFromTable (tableCards s) [Loose playerCard])
                      else map_option (\<lambda>(updatedHands, cardRemoved). (updatedHands, tableCards s))
                             (removeCardFromHand (playerHands s) cp playerCard)) of
                  None \<Rightarrow> Inr s
                | Some (newPlayerHands, tempTableCards) \<Rightarrow>
                    (let initialBuildCards =
                           (case (biggerCard, smallerCard) of
                              (Some big, Some small) \<Rightarrow> [big, small]
                            | _ \<Rightarrow> sortCardsByRank h tableCardsInBuild @ [playerCard]);
                         newBuild = \<lparr>buildId = newId, cards = initialBuildCards, value = buildValue,
                                     owner = cp, isExtendable = True\<rparr>;
                         finalTableCards = removeCardsFromTable tempTableCards (map Loose tableCardsInBuild)
                                           @ [Build newBuild]
                     in Inr (nextPlayer (s\<lparr>playerHands := newPlayerHands, tableCards := finalTableCards,
                                             playerCaptures := playerCaptures s\<rparr>))))))"

definition handleReinforceBuildWithStack :: "gameState \<Rightarrow> temporaryStack \<Rightarrow> build \<Rightarrow> string \<Rightarrow> gameState" where
  "handleReinforceBuildWithStack s stack targetBuild newId =
     (let cardsForPartition = map stripSource (temporaryStack.cards stack);
          allNewBuildCards = build.cards targetBuild @ cardsForPartition;
          newBuild = \<lparr>buildId = newId, cards = allNewBuildCards, value = value targetBuild,
                      owner = currentPlayer s, isExtendable = False\<rparr>;
          finalTableCards = removeCardsFromTable (tableCards s) [Build targetBuild, TemporaryStack stack]
                            @ [Build newBuild]
      in nextPlayer (s\<lparr>playerHands := playerHands s, tableCards := finalTableCards,
                       playerCaptures := playerCaptures s\<rparr>))"

definition handleCreateBuildFromStack :: "helpers \<Rightarrow> gameState \<Rightarrow> draggedItem \<Rightarrow> temporaryStack \<Rightarrow> string \<Rightarrow> gameState" where
  "handleCreateBuildFromStack h s item stack newId =
     (let handCard = draggedCard item;
          stackValue = calculateCardSum h (temporaryStack.cards stack);
          handCardValue = rankValue h (rank handCard);
          isReinforce = (stackValue = handCardValue);
          newBuildValue = (if isReinforce then stackValue else stackValue + handCardValue);
          allCardsInBuild = temporaryStack.cards stack @ [handCard];
          newBuild = \<lparr>buildId = newId, cards = allCardsInBuild, value = newBuildValue,
                      owner = currentPlayer s, isExtendable = \<not> isReinforce\<rparr>
      in case removeCardFromHand (playerHands s) (currentPlayer s) handCard of
           None \<Rightarrow> s
         | Some (newPlayerHands, actualCardUsed) \<Rightarrow>
             nextPlayer (s\<lparr>playerHands := newPlayerHands,
                           tableCards := removeCardsFromTable (tableCards s) [TemporaryStack stack]
                                         @ [Build newBuild]\<rparr>))"

text \<open>
  \<^verbatim>\<open>handleAddToOpponentBuild\<close> makes no check (``Validation is handled in
  useGameActions''). The build's cards and the card played are sorted by
  \<^verbatim>\<open>rankValue(b.rank) - rankValue(a.rank)\<close>, higher values first; the sort of an
  array is stable. The new build belongs to the current player.
\<close>

definition handleAddToOpponentBuild :: "helpers \<Rightarrow> gameState \<Rightarrow> draggedItem \<Rightarrow> build \<Rightarrow> string \<Rightarrow> gameState" where
  "handleAddToOpponentBuild h s item buildToAddTo newId =
     (let playerCard = draggedCard item; cp = currentPlayer s;
          newBuildValue = value buildToAddTo + rankValue h (rank playerCard);
          newBuildCards = build.cards buildToAddTo @ [playerCard];
          sortedCards = sort_key (\<lambda>c. - int (rankValue h (rank c))) newBuildCards;
          newBuild = \<lparr>buildId = newId, cards = sortedCards, value = newBuildValue, owner = cp,
                      isExtendable = (length sortedCards < 5)\<rparr>
      in case (if draggedSource item = FromTable
               then Some (playerHands s, removeCardsFromTable (tableCards s) [Loose playerCard])
               else map_option (\<lambda>(updatedHands, cardRemoved). (updatedHands, tableCards s))
                      (removeCardFromHand (playerHands s) cp playerCard)) of
           None \<Rightarrow> s
         | Some (newPlayerHands, newTableCards) \<Rightarrow>
             nextPlayer (s\<lparr>playerHands := newPlayerHands,
                           tableCards := removeCardsFromTable newTableCards [Build buildToAddTo]
                                         @ [Build newBuild],
                           playerCaptures := playerCaptures s\<rparr>))"

definition handleAddToOwnBuild :: "helpers \<Rightarrow> gameState \<Rightarrow> draggedItem \<Rightarrow> build \<Rightarrow> gameState" where
  "handleAddToOwnBuild h s item buildToAddTo =
     (let playerCard = draggedCard item;
          isReinforce = (rankValue h (rank playerCard) = value buildToAddTo);
          newBuildValue = (if isReinforce then value buildToAddTo
                           else value buildToAddTo + rankValue h (rank playerCard));
          newBuildCards = build.cards buildToAddTo @ [playerCard];
          newBuild = buildToAddTo\<lparr>value := newBuildValue, build.cards := newBuildCards,
                                   isExtendable := \<not> isReinforce\<rparr>;
          newTableCards = filter (notBuild (buildId buildToAddTo)) (tableCards s) @ [Build newBuild]
      in case removeCardFromHand (playerHands s) (currentPlayer s) playerCard of
           None \<Rightarrow> s
         | Some (newPlayerHands, actualCardUsed) \<Rightarrow>
             nextPlayer (s\<lparr>tableCards := newTableCards, playerHands := newPlayerHands\<rparr>))"

text \<open>
  \<^verbatim>\<open>handleCapture\<close>, first part: a player who owns a build and combines loose
  cards with a hand card into sums of the build's value adds them to the build. \<open>None\<close>
  means that this part does not apply and the capture proper follows.
\<close>

definition captureAsReinforce :: "helpers \<Rightarrow> gameState \<Rightarrow> draggedItem \<Rightarrow> tableEntity list \<Rightarrow> card option \<Rightarrow> string \<Rightarrow> gameState option" where
  "captureAsReinforce h s item selectedTableCards opponentCard newId =
     (let selectedCard = draggedCard item; cp = currentPlayer s in
      case findOwnBuild cp (tableCards s) of
        None \<Rightarrow> None
      | Some playerOwnBuild \<Rightarrow>
          if draggedSource item = FromHand \<and> opponentCard = None
             \<and> \<not> list_ex isBuild selectedTableCards
          then (let potentialStackCards = selectedCard # concat (map entityCards selectedTableCards) in
                if canPartitionIntoSums h potentialStackCards (value playerOwnBuild)
                then (case removeCardFromHand (playerHands s) cp selectedCard of
                        None \<Rightarrow> Some s
                      | Some (newPlayerHands, actualCardUsed) \<Rightarrow>
                          (let newBuild = \<lparr>buildId = newId,
                                 cards = build.cards playerOwnBuild @ potentialStackCards,
                                 value = value playerOwnBuild, owner = cp, isExtendable = False\<rparr>;
                               finalTableCards =
                                 removeCardsFromTable (tableCards s) (Build playerOwnBuild # selectedTableCards)
                                 @ [Build newBuild]
                           in Some (nextPlayer (s\<lparr>playerHands := newPlayerHands,
                                                    tableCards := finalTableCards\<rparr>))))
                else None)
          else None)"

text \<open>\<^verbatim>\<open>handleCapture\<close>, second part: the capture proper.\<close>

definition captureProper :: "helpers \<Rightarrow> gameState \<Rightarrow> draggedItem \<Rightarrow> tableEntity list \<Rightarrow> card option \<Rightarrow> error + gameState" where
  "captureProper h s item selectedTableCards opponentCard =
     (let selectedCard = draggedCard item; src = draggedSource item; cp = currentPlayer s;
          isFinalizingStack = list_ex isTemporaryStack selectedTableCards
      in case (if src = FromTable
               then Some (playerHands s, removeCardsFromTable (tableCards s) [Loose selectedCard], selectedCard)
               else if \<not> isFinalizingStack
               then map_option (\<lambda>(updatedHands, cardRemoved). (updatedHands, tableCards s, cardRemoved))
                      (removeCardFromHand (playerHands s) cp selectedCard)
               else Some (playerHands s, tableCards s, selectedCard)) of
           None \<Rightarrow> Inr s
         | Some (newPlayerHands, newTableCards, actualCardUsed) \<Rightarrow>
             (let finalTableCards =
                    filter (\<lambda>item'. \<not> list_ex (matchesItem item') selectedTableCards) newTableCards
              in case (case opponentCard of
                         None \<Rightarrow> Some (playerCaptures s)
                       | Some oc \<Rightarrow>
                           (if cp \<le> 1
                            then map_option
                                   (\<lambda>groups. setAt (playerCaptures s) (1 - cp)
                                      (filter (\<lambda>g. length g > 0)
                                         (map (filter (\<lambda>c. \<not> sameCard c oc)) groups)))
                                   (at (playerCaptures s) (1 - cp))
                            else None)) of
                   None \<Rightarrow> Inl TypeError
                 | Some finalPlayerCaptures \<Rightarrow>
                     (let allCapturedItems = concat (map entityCards selectedTableCards);
                          flattenedCapturedCards =
                            (if isFinalizingStack
                             then filter (\<lambda>c. \<not> (source c = Some FromHand \<and> sameCard c selectedCard))
                                    allCapturedItems
                             else allCapturedItems);
                          flattenedCapturedCards =
                            (if src = FromTable then flattenedCapturedCards @ [actualCardUsed]
                             else flattenedCapturedCards);
                          capturingCardForStack = (if src = FromHand then actualCardUsed else selectedCard);
                          capturedGroup = createCaptureStack h capturingCardForStack flattenedCapturedCards
                                            opponentCard
                      in case at finalPlayerCaptures cp of
                           None \<Rightarrow> Inl TypeError
                         | Some mine \<Rightarrow>
                             Inr (nextPlayer (s\<lparr>playerHands := newPlayerHands,
                                    tableCards := finalTableCards,
                                    playerCaptures := finalPlayerCaptures[cp := mine @ [capturedGroup]],
                                    lastCapturer := Some cp\<rparr>)))))"

definition handleCapture :: "helpers \<Rightarrow> gameState \<Rightarrow> draggedItem \<Rightarrow> tableEntity list \<Rightarrow> card option \<Rightarrow> string \<Rightarrow> error + gameState" where
  "handleCapture h s item selectedTableCards opponentCard newId =
     (case captureAsReinforce h s item selectedTableCards opponentCard newId of
        Some s' \<Rightarrow> Inr s'
      | None \<Rightarrow> captureProper h s item selectedTableCards opponentCard)"

subsection \<open>Staging stacks\<close>

text \<open>\<^verbatim>\<open>c => !c.type && c.rank === tableCard.rank && c.suit === tableCard.suit\<close>\<close>

fun looseLike :: "card \<Rightarrow> tableEntity \<Rightarrow> bool" where
  "looseLike c (Loose c') = (rank c' = rank c \<and> suit c' = suit c)"
| "looseLike c _ = False"

text \<open>\<^verbatim>\<open>s => s.stackId === targetStack.stackId\<close>\<close>

fun hasStackId :: "string \<Rightarrow> tableEntity \<Rightarrow> bool" where
  "hasStackId sid (TemporaryStack st) = (stackId st = sid)"
| "hasStackId sid _ = False"

definition handleCreateStagingStack :: "helpers \<Rightarrow> gameState \<Rightarrow> card \<Rightarrow> card \<Rightarrow> string \<Rightarrow> gameState" where
  "handleCreateStagingStack h s handCard tableCard newId =
     (if list_ex (stackOwnedBy (currentPlayer s)) (tableCards s) then s
      else (case findIndex (looseLike tableCard) (tableCards s) of
              None \<Rightarrow> s
            | Some targetIndex \<Rightarrow>
                (let handValue = rankValue h (rank handCard);
                     tableValue = rankValue h (rank tableCard);
                     orderedCards =
                       (if handValue < tableValue
                        then [tagged FromTable tableCard, tagged FromHand handCard]
                        else [tagged FromHand handCard, tagged FromTable tableCard]);
                     newStack = \<lparr>stackId = newId, cards = orderedCards, owner = currentPlayer s\<rparr>
                 in case removeCardFromHand (playerHands s) (currentPlayer s) handCard of
                      None \<Rightarrow> s
                    | Some (newPlayerHands, actualCardUsed) \<Rightarrow>
                        s\<lparr>playerHands := newPlayerHands,
                          tableCards := (tableCards s)[targetIndex := TemporaryStack newStack]\<rparr>)))"

text \<open>
  \<^verbatim>\<open>handleAddToStagingStack\<close>: when the stack is not on the table the fallback
  assigns to \<^verbatim>\<open>newTableCards\<close>, which is declared \<^verbatim>\<open>const\<close>, and the
  assignment throws.
\<close>

definition handleAddToStagingStack :: "gameState \<Rightarrow> card \<Rightarrow> temporaryStack \<Rightarrow> error + gameState" where
  "handleAddToStagingStack s handCard targetStack =
     (case removeCardFromHand (playerHands s) (currentPlayer s) handCard of
        None \<Rightarrow> Inr s
      | Some (newPlayerHands, actualCardUsed) \<Rightarrow>
          (let newStack = targetStack\<lparr>temporaryStack.cards :=
                 temporaryStack.cards targetStack @ [tagged FromHand handCard]\<rparr>
           in case findIndex (hasStackId (stackId targetStack)) (tableCards s) of
                Some stackIndex \<Rightarrow>
                  Inr (s\<lparr>playerHands := newPlayerHands,
                         tableCards := (tableCards s)[stackIndex := TemporaryStack newStack]\<rparr>)
              | None \<Rightarrow> Inl TypeError))"

text \<open>
  Disbanding and cancelling sort the cards of the stack by their \<^verbatim>\<open>source\<close> tag,
  which they delete: \<^verbatim>\<open>'hand'\<close> cards go back to the hand,
  \<^verbatim>\<open>'opponentCapture'\<close> cards to the opponent's captures and all others to the
  table.
\<close>

definition handCardsOf :: "temporaryStack \<Rightarrow> card list" where
  "handCardsOf stack = map stripSource (filter (\<lambda>c. source c = Some FromHand) (temporaryStack.cards stack))"

definition opponentCardsOf :: "temporaryStack \<Rightarrow> card list" where
  "opponentCardsOf stack =
     map stripSource (filter (\<lambda>c. source c = Some FromOpponentCapture) (temporaryStack.cards stack))"

definition looseCardsOf :: "temporaryStack \<Rightarrow> card list" where
  "looseCardsOf stack =
     map stripSource (filter (\<lambda>c. source c \<noteq> Some FromHand \<and> source c \<noteq> Some FromOpponentCapture)
       (temporaryStack.cards stack))"

text \<open>
  The opponent's capture pile after the cards came back:
  \<^verbatim>\<open>
  let opponentCaps = [...(playerCaptures[opponentIndex] || [])];
  if (opponentCaps.length > 0) opponentCaps[opponentCaps.length - 1].push(...opponentCards);
  else opponentCaps.push(opponentCards);\<close>
\<close>

definition returnToCaptures :: "card list list \<Rightarrow> card list \<Rightarrow> card list list" where
  "returnToCaptures opponentCaps opponentCards =
     (if length opponentCaps > 0
      then butlast opponentCaps @ [last opponentCaps @ opponentCards]
      else [opponentCards])"

text \<open>With \<^verbatim>\<open>opponentIndex = 1 - currentPlayer\<close>; a negative index reads
  \<^verbatim>\<open>undefined\<close> and its assignment adds no element.\<close>

definition restoreOpponentCaptures :: "gameState \<Rightarrow> card list \<Rightarrow> card list list list" where
  "restoreOpponentCaptures s opponentCards =
     (if length opponentCards > 0 \<and> currentPlayer s \<le> 1
      then (let opponentIndex = 1 - currentPlayer s;
                opponentCaps = (case at (playerCaptures s) opponentIndex of None \<Rightarrow> [] | Some caps \<Rightarrow> caps)
            in setAt (playerCaptures s) opponentIndex (returnToCaptures opponentCaps opponentCards))
      else playerCaptures s)"

definition handleDisbandStagingStack :: "gameState \<Rightarrow> temporaryStack \<Rightarrow> error + gameState" where
  "handleDisbandStagingStack s stackToDisband =
     (case at (playerHands s) (currentPlayer s) of
        None \<Rightarrow> Inl TypeError
      | Some hand \<Rightarrow>
          (let currentHand = hand @ handCardsOf stackToDisband;
               newPlayerHands = (playerHands s)[currentPlayer s := currentHand];
               playerCaptures' = restoreOpponentCaptures s (opponentCardsOf stackToDisband);
               newTableCards = filter (notStack (stackId stackToDisband)) (tableCards s)
                               @ map Loose (looseCardsOf stackToDisband)
           in Inr (nextPlayer (s\<lparr>playerHands := newPlayerHands, tableCards := newTableCards,
                                   playerCaptures := playerCaptures'\<rparr>))))"

definition handleCancelStagingStack :: "gameState \<Rightarrow> temporaryStack \<Rightarrow> error + gameState" where
  "handleCancelStagingStack s stackToCancel =
     (case at (playerHands s) (currentPlayer s) of
        None \<Rightarrow> Inl TypeError
      | Some hand \<Rightarrow>
          (let currentHand = hand @ handCardsOf stackToCancel;
               playerHands' = (playerHands s)[currentPlayer s := currentHand];
               playerCaptures' = restoreOpponentCaptures s (opponentCardsOf stackToCancel);
               newTableCards = filter (notStack (stackId stackToCancel)) (tableCards s)
                               @ map Loose (looseCardsOf stackToCancel)
           in Inr (s\<lparr>playerHands := playerHands', tableCards := newTableCards,
                       playerCaptures := playerCaptures'\<rparr>)))"

definition handleMergeIntoOwnBuild :: "gameState \<Rightarrow> temporaryStack \<Rightarrow> build \<Rightarrow> gameState" where
  "handleMergeIntoOwnBuild s stack targetBuild =
     (let cardsFromStack = map stripSource (temporaryStack.cards stack);
          newBuildCards = build.cards targetBuild @ cardsFromStack;
          newBuild = targetBuild\<lparr>build.cards := newBuildCards\<rparr>;
          newTableCards = removeCardsFromTable (tableCards s) [Build targetBuild, TemporaryStack stack]
                          @ [Build newBuild]
      in s\<lparr>tableCards := newTableCards\<rparr>)"

definition handleReinforceOpponentBuildWithStack :: "gameState \<Rightarrow> temporaryStack \<Rightarrow> build \<Rightarrow> gameState" where
  "handleReinforceOpponentBuildWithStack s stack opponentBuild =
     (let cardsFromStack = map stripSource (temporaryStack.cards stack);
          newBuildCards = build.cards opponentBuild @ cardsFromStack;
          newBuild = opponentBuild\<lparr>build.cards := newBuildCards, isExtendable := False\<rparr>;
          newTableCards = removeCardsFromTable (tableCards s) [Build opponentBuild, TemporaryStack stack]
                          @ [Build newBuild]
      in s\<lparr>tableCards := newTableCards\<rparr>)"

text \<open>
  The three outcomes of \<^verbatim>\<open>handleFinalizeStagingStack\<close>: a new game state, an
  \<^verbatim>\<open>options\<close> object (the build values, the stack and the hand card of the
  stack), or the object \<^verbatim>\<open>{ error: true, message }\<close>.
\<close>

datatype finalizeResult =
    NewState gameState
  | Options "nat list" temporaryStack "card option"
  | NoValidBuild

text \<open>\<^verbatim>\<open>findPossibleBuildsFromStack\<close> reads the hand only after its first two
  rules.\<close>

definition handleFinalizeStagingStack :: "helpers \<Rightarrow> gameState \<Rightarrow> temporaryStack \<Rightarrow> string \<Rightarrow> error + finalizeResult" where
  "handleFinalizeStagingStack h s stack newId =
     (let cp = currentPlayer s in
      case (case at (playerHands s) cp of
              Some playerHand \<Rightarrow> Some (findPossibleBuildsFromStack h stack playerHand (tableCards s) cp)
            | None \<Rightarrow>
                (if hasActiveBuild (tableCards s) cp
                    \<or> length (filter (\<lambda>c. source c = Some FromHand) (temporaryStack.cards stack)) \<noteq> 1
                 then Some [] else None)) of
        None \<Rightarrow> Inl TypeError
      | Some possibleBuilds \<Rightarrow>
          (if length possibleBuilds = 0 then Inr NoValidBuild
           else if length possibleBuilds > 1
             then Inr (Options possibleBuilds stack
                        (find (\<lambda>c. source c = Some FromHand) (temporaryStack.cards stack)))
           else (let buildValue = possibleBuilds ! 0;
                     finalCardsInBuild = map stripSource (temporaryStack.cards stack);
                     newBuild = \<lparr>buildId = newId, cards = map stripSource finalCardsInBuild,
                                 value = buildValue, owner = cp, isExtendable = True\<rparr>;
                     newTableCards = filter (notStack (stackId stack)) (tableCards s) @ [Build newBuild]
                 in Inr (NewState (nextPlayer (s\<lparr>tableCards := newTableCards\<rparr>))))))"

definition handleCreateBuildWithValue :: "gameState \<Rightarrow> temporaryStack \<Rightarrow> nat \<Rightarrow> string \<Rightarrow> gameState" where
  "handleCreateBuildWithValue s stack buildValue newId =
     (let initialBuildCards = map stripSource (temporaryStack.cards stack);
          newBuild = \<lparr>buildId = newId, cards = initialBuildCards, value = buildValue,
                      owner = currentPlayer s, isExtendable = True\<rparr>;
          newTableCards = removeCardsFromTable (tableCards s) [TemporaryStack stack] @ [Build newBuild]
      in nextPlayer (s\<lparr>tableCards := newTableCards\<rparr>))"

definition handleStageSingleCardFromHand :: "gameState \<Rightarrow> card \<Rightarrow> string \<Rightarrow> gameState" where
  "handleStageSingleCardFromHand s c newId =
     (if list_ex (stackOwnedBy (currentPlayer s)) (tableCards s) then s
      else (case removeCardFromHand (playerHands s) (currentPlayer s) c of
              None \<Rightarrow> s
            | Some (newPlayerHands, actualCardUsed) \<Rightarrow>
                (let newStack = \<lparr>stackId = newId, cards = [tagged FromHand c], owner = currentPlayer s\<rparr>
                 in s\<lparr>playerHands := newPlayerHands,
                      tableCards := tableCards s @ [TemporaryStack newStack]\<rparr>)))"

text \<open>
  \<^verbatim>\<open>handleTrailCard\<close> of the hook \<^verbatim>\<open>useGameActions\<close> decides what a trail
  is. It tests \<^verbatim>\<open>owner === currentPlayer - 1\<close> and validates for
  \<^verbatim>\<open>player - 1\<close>; no table item is owned by -1.
\<close>

definition handleTrailCard :: "gameState \<Rightarrow> card \<Rightarrow> nat \<Rightarrow> string \<Rightarrow> gameState" where
  "handleTrailCard s c player newId =
     (if round s = 2 then
        (if currentPlayer s \<ge> 1 \<and> list_ex (stackOwnedBy (currentPlayer s - 1)) (tableCards s) then s
         else handleStageSingleCardFromHand s c newId)
      else (let validation = (if player \<ge> 1 then validateTrail (tableCards s) c (player - 1) (round s)
                              else accept None)
            in if \<not> valid validation then s else handleTrail s c))"

text \<open>
  The caller of \<^verbatim>\<open>handleTrailCard\<close> is \<^verbatim>\<open>handleDragEnd\<close> of the game
  board, for a hand card that no drop zone has taken:
  \<^verbatim>\<open>handleTrailCard(draggedItem.card, draggedItem.player || 0, dropPosition)\<close>. The
  \<^verbatim>\<open>player\<close> of the dragged item is set by \<^verbatim>\<open>DraggableCard\<close> to
  \<^verbatim>\<open>safeCurrentPlayer\<close>, the current player of the game state,
  \<^verbatim>\<open>(currentPlayer >= 0 && currentPlayer <= 1) ? currentPlayer : 0\<close>.
\<close>

definition safeCurrentPlayer :: "nat \<Rightarrow> nat" where
  "safeCurrentPlayer cp = (if cp \<le> 1 then cp else 0)"

definition handleDragEnd :: "gameState \<Rightarrow> card \<Rightarrow> string \<Rightarrow> gameState" where
  "handleDragEnd s c newId = handleTrailCard s c (safeCurrentPlayer (currentPlayer s)) newId"

section \<open>Round and game lifecycle\<close>

text \<open>
  The dealing loop of \<^verbatim>\<open>startNextRound\<close>:
  \<^verbatim>\<open>
  for (let i = 0; i < 10; i++) {
    if (workingDeck.length > 0) newPlayerHands[0].push(workingDeck.pop());
    if (workingDeck.length > 0) newPlayerHands[1].push(workingDeck.pop());
  }\<close>
  \<^verbatim>\<open>pop\<close> takes the last card of the deck.
\<close>

fun dealLoop :: "nat \<Rightarrow> card list \<Rightarrow> card list \<Rightarrow> card list \<Rightarrow> card list \<times> card list \<times> card list" where
  "dealLoop 0 h0 h1 d = (h0, h1, d)"
| "dealLoop (Suc n) h0 h1 d =
     (let (h0', d') = (if d \<noteq> [] then (h0 @ [last d], butlast d) else (h0, d));
          (h1', d'') = (if d' \<noteq> [] then (h1 @ [last d'], butlast d') else (h1, d'))
      in dealLoop n h0' h1' d'')"

definition startNextRound :: "gameState \<Rightarrow> error + gameState" where
  "startNextRound s =
     (if length (deck s) < 20 then Inr s
      else (case playerHands s of
              h0 # h1 # _ \<Rightarrow>
                (let (h0', h1', workingDeck) = dealLoop 10 h0 h1 (deck s)
                 in Inr (s\<lparr>deck := workingDeck, playerHands := [h0', h1'], round := 2,
                           tableCards := tableCards s\<rparr>))
            | _ \<Rightarrow> Inl TypeError))"

text \<open>
  \<^verbatim>\<open>handleSweep\<close> flattens the builds of the table only:
  \<^verbatim>\<open>tableCards.flatMap(item => item.type === 'build' ? item.cards : [item])\<close>.
  A temporary stack goes into the capture group as it is. The capture sets of a game
  state hold cards (\<^verbatim>\<open>playerCaptures: Card[][][]\<close>), so the outcome with a
  stack in the group is kept apart, with the group.
\<close>

fun sweepItem :: "tableEntity \<Rightarrow> (card + temporaryStack) list" where
  "sweepItem (Build b) = map Inl (build.cards b)"
| "sweepItem (Loose c) = [Inl c]"
| "sweepItem (TemporaryStack st) = [Inr st]"

fun sweptCards :: "(card + temporaryStack) list \<Rightarrow> card list option" where
  "sweptCards [] = Some []"
| "sweptCards (Inl c # xs) = map_option ((#) c) (sweptCards xs)"
| "sweptCards (Inr st # xs) = None"

datatype sweepResult = Swept gameState | StackInCaptureGroup "(card + temporaryStack) list"

definition handleSweep :: "gameState \<Rightarrow> error + sweepResult" where
  "handleSweep s =
     (case lastCapturer s of
        None \<Rightarrow> Inr (Swept s)
      | Some lc \<Rightarrow>
          if length (tableCards s) = 0 then Inr (Swept s)
          else (let flattenedTableCards = concat (map sweepItem (tableCards s)) in
                case at (playerCaptures s) lc of
                  None \<Rightarrow> Inl TypeError
                | Some mine \<Rightarrow>
                    (case sweptCards flattenedTableCards of
                       None \<Rightarrow> Inr (StackInCaptureGroup flattenedTableCards)
                     | Some sweptGroup \<Rightarrow>
                         Inr (Swept (s\<lparr>tableCards := [],
                                playerCaptures := (playerCaptures s)[lc := mine @ [sweptGroup]]\<rparr>)))))"

text \<open>
  \<^verbatim>\<open>calculateScores\<close> compares the suit of a card with string literals, so
  here the suits are the strings that they are, as sequences of UTF-16 code units. The four
  values of \<^verbatim>\<open>CardSuit\<close> (\<^verbatim>\<open>types/gameTypes.ts\<close>) are one unit
  each: U+2660 (spade), U+2665 (heart), U+2666 (diamond) and U+2663 (club).
\<close>

definition suitText :: "suit \<Rightarrow> nat list" where
  "suitText su = (case su of Spades \<Rightarrow> [9824] | Hearts \<Rightarrow> [9829] | Diamonds \<Rightarrow> [9830]
     | Clubs \<Rightarrow> [9827])"

text \<open>
  The two literals of \<^verbatim>\<open>calculateScores\<close> are three units each: U+00E2 U+2122
  U+00A0 in \<^verbatim>\<open>c.suit === '...'\<close> of the spade count and of the two of
  spades (bytes C3 A2, E2 84 A2, C2 A0 of the source file), and U+00E2 U+2122 U+00A6 for the
  ten of diamonds (the last two bytes are C2 A6).
\<close>

definition spadeLiteral :: "nat list" where
  "spadeLiteral = [226, 8482, 160]"

definition diamondLiteral :: "nat list" where
  "diamondLiteral = [226, 8482, 166]"

text \<open>
  \<^verbatim>\<open>calculateScores\<close>. The counts and the two comparisons come first; the
  nested \<^verbatim>\<open>forEach\<close> over each player's cards is \<open>scoreCard\<close> folded over
  the flattened captures.
\<close>

definition emptyDetail :: scoreDetail where
  "emptyDetail = \<lparr>mostCards = 0, mostSpades = 0, bigCasino = 0, littleCasino = 0, aces = 0,
     total = 0, cardCount = 0, spadeCount = 0\<rparr>"

definition scoreCard :: "card \<Rightarrow> scoreDetail \<Rightarrow> scoreDetail" where
  "scoreCard c d =
     (let d1 = (if rank c = Ace then d\<lparr>aces := aces d + 1\<rparr> else d);
          d2 = (if rank c = R10 \<and> suitText (suit c) = diamondLiteral then d1\<lparr>bigCasino := 2\<rparr>
                else d1)
      in (if rank c = R2 \<and> suitText (suit c) = spadeLiteral then d2\<lparr>littleCasino := 1\<rparr> else d2))"

definition scoringCard :: "card \<Rightarrow> bool" where
  "scoringCard c \<longleftrightarrow> rank c = Ace \<or> (rank c = R10 \<and> suitText (suit c) = diamondLiteral)
     \<or> (rank c = R2 \<and> suitText (suit c) = spadeLiteral)"

definition sumTotal :: "scoreDetail \<Rightarrow> scoreDetail" where
  "sumTotal d = d\<lparr>total := mostCards d + mostSpades d + bigCasino d + littleCasino d + aces d\<rparr>"

record scoreResult =
  resScores :: "nat list"
  resDetails :: "scoreDetail list"
  resWinner :: "nat option"

text \<open>
  \<^verbatim>\<open>details\<close> has two entries: with fewer than two capture sets
  \<^verbatim>\<open>allPlayerCards[1].length\<close> throws, and with more than two
  \<^verbatim>\<open>details[playerIndex]\<close> is undefined as soon as a card of a further player
  passes one of the three tests of the loop.
\<close>

definition tally :: "card list \<Rightarrow> scoreDetail" where
  "tally cs = emptyDetail\<lparr>cardCount := length cs,
     spadeCount := length (filter (\<lambda>c. suitText (suit c) = spadeLiteral) cs)\<rparr>"

text \<open>Most cards: 2 points for most, 1 point each for a tie of a positive count.\<close>

definition awardMostCards :: "scoreDetail \<Rightarrow> scoreDetail \<Rightarrow> scoreDetail \<times> scoreDetail" where
  "awardMostCards d0 d1 =
     (if cardCount d0 > cardCount d1 then (d0\<lparr>mostCards := 2\<rparr>, d1)
      else if cardCount d1 > cardCount d0 then (d0, d1\<lparr>mostCards := 2\<rparr>)
      else if cardCount d0 > 0 \<and> cardCount d0 = cardCount d1
        then (d0\<lparr>mostCards := 1\<rparr>, d1\<lparr>mostCards := 1\<rparr>)
      else (d0, d1))"

definition awardMostSpades :: "scoreDetail \<Rightarrow> scoreDetail \<Rightarrow> scoreDetail \<times> scoreDetail" where
  "awardMostSpades d0 d1 =
     (if spadeCount d0 > spadeCount d1 then (d0\<lparr>mostSpades := 2\<rparr>, d1)
      else if spadeCount d1 > spadeCount d0 then (d0, d1\<lparr>mostSpades := 2\<rparr>)
      else if spadeCount d0 > 0 \<and> spadeCount d0 = spadeCount d1
        then (d0\<lparr>mostSpades := 1\<rparr>, d1\<lparr>mostSpades := 1\<rparr>)
      else (d0, d1))"

definition calculateScores :: "card list list list \<Rightarrow> error + scoreResult" where
  "calculateScores playerCaptures' =
     (case map concat playerCaptures' of
        cards0 # cards1 # others \<Rightarrow>
          (let (d0, d1) = awardMostCards (tally cards0) (tally cards1);
               (d0, d1) = awardMostSpades d0 d1;
               d0 = fold scoreCard cards0 d0;
               d1 = fold scoreCard cards1 d1
           in if list_ex (list_ex scoringCard) others then Inl TypeError
              else (let d0 = sumTotal d0; d1 = sumTotal d1;
                        finalScores = [total d0, total d1];
                        w = (if total d0 > total d1 then Some 0
                             else if total d1 > total d0 then Some 1 else None)
                    in Inr \<lparr>resScores = finalScores, resDetails = [d0, d1], resWinner = w\<rparr>))
      | _ \<Rightarrow> Inl TypeError)"

definition endGame :: "gameState \<Rightarrow> error + gameState" where
  "endGame s =
     (case calculateScores (playerCaptures s) of
        Inl e \<Rightarrow> Inl e
      | Inr r \<Rightarrow> Inr (s\<lparr>scores := Some (resScores r), winner := resWinner r,
                         scoreDetails := Some (resDetails r), gameOver := True\<rparr>))"

subsection \<open>Scoring: the words of the specification and the totals of the code\<close>

text \<open>
  The points for a majority as the code awards them: 2 for the strictly larger count, 1
  each when the counts are equal and positive.
\<close>

definition awarded :: "nat \<Rightarrow> nat \<Rightarrow> nat" where
  "awarded mine theirs = (if mine > theirs then 2 else if mine = theirs \<and> 0 < mine then 1 else 0)"

text \<open>
  The points for a majority as the specification states them: 2 for the strictly larger
  count, ``or +1 each on a tie''.
\<close>

definition claimedAward :: "nat \<Rightarrow> nat \<Rightarrow> nat" where
  "claimedAward mine theirs = (if mine > theirs then 2 else if mine = theirs then 1 else 0)"

text \<open>
  The spades of a capture set, the points for its aces, the ten of diamonds and the two of
  spades, and the score of a player, as the specification states them.
\<close>

definition spadesIn :: "card list \<Rightarrow> nat" where
  "spadesIn cs = length (filter (\<lambda>c. suit c = Spades) cs)"

definition cardPoints :: "card list \<Rightarrow> nat" where
  "cardPoints mine =
     length (filter (\<lambda>c. rank c = Ace) mine)
     + (if list_ex (\<lambda>c. rank c = R10 \<and> suit c = Diamonds) mine then 2 else 0)
     + (if list_ex (\<lambda>c. rank c = R2 \<and> suit c = Spades) mine then 1 else 0)"

definition claimedScore :: "card list \<Rightarrow> card list \<Rightarrow> nat" where
  "claimedScore mine theirs =
     claimedAward (length mine) (length theirs) + claimedAward (spadesIn mine) (spadesIn theirs)
     + cardPoints mine"

text \<open>The total that the code computes, as the theorem on \<open>calculateScores\<close> shows:
  the points for most cards and one point for each ace.\<close>

definition computedScore :: "card list \<Rightarrow> card list \<Rightarrow> nat" where
  "computedScore mine theirs =
     awarded (length mine) (length theirs) + length (filter (\<lambda>c. rank c = Ace) mine)"

definition strictWinner :: "nat \<Rightarrow> nat \<Rightarrow> nat option" where
  "strictWinner t0 t1 = (if t0 > t1 then Some 0 else if t1 > t0 then Some 1 else None)"

subsection \<open>Example cards and states\<close>

definition mk :: "rank \<Rightarrow> suit \<Rightarrow> card" where
  "mk r su = \<lparr>rank = r, suit = su, source = None\<rparr>"

definition pips :: "rank list" where
  "pips = [Ace, R2, R3, R4, R5, R6, R7, R8, R9, R10]"

definition emptyState :: gameState where
  "emptyState = \<lparr>currentPlayer = 0, playerHands = [[], []], tableCards = [],
     playerCaptures = [[], []], deck = [], round = 1, gameOver = False, scores = None,
     scoreDetails = None, lastCapturer = None, winner = None\<rparr>"

text \<open>Round 1 is over: both hands are empty, a loose card lies on the table and twenty
  cards (hearts below, clubs on top) are left in the deck.\<close>

definition roundOneOver :: gameState where
  "roundOneOver = emptyState\<lparr>tableCards := [Loose (mk R7 Spades)],
     deck := map (\<lambda>r. mk r Hearts) pips @ map (\<lambda>r. mk r Clubs) pips\<rparr>"

definition shortDeck :: gameState where
  "shortDeck = emptyState\<lparr>deck := [mk R4 Hearts, mk R9 Clubs]\<rparr>"

text \<open>
  An instance of the four parameters, with which the handlers are evaluated on examples:
  ace to ten count 1 to 10 and the face cards, which have no build value, 11 to 13;
  cards partition into sums of a target when they can be put into one or more groups that
  each add up to it; sorting is stable, higher ranks first; a capture group is the captured
  cards, the opponent's card and the capturing card.
\<close>

definition pipValue :: "rank \<Rightarrow> nat" where
  "pipValue r = (case r of Ace \<Rightarrow> 1 | R2 \<Rightarrow> 2 | R3 \<Rightarrow> 3 | R4 \<Rightarrow> 4 | R5 \<Rightarrow> 5 | R6 \<Rightarrow> 6 | R7 \<Rightarrow> 7
     | R8 \<Rightarrow> 8 | R9 \<Rightarrow> 9 | R10 \<Rightarrow> 10 | Jack \<Rightarrow> 11 | Queen \<Rightarrow> 12 | King \<Rightarrow> 13)"

text \<open>\<open>fillGroups t open vs\<close>: the values \<open>vs\<close> can be added to the groups begun
  (\<open>open\<close>, each below \<open>t\<close>) or to new groups so that every group reaches \<open>t\<close>.\<close>

fun fillGroups :: "nat \<Rightarrow> nat list \<Rightarrow> nat list \<Rightarrow> bool" where
  "fillGroups t open [] = (open = [])"
| "fillGroups t open (v # vs) =
     ((v = t \<and> fillGroups t open vs)
      \<or> (v < t \<and> fillGroups t (v # open) vs)
      \<or> list_ex (\<lambda>i. open ! i + v = t \<and> fillGroups t (take i open @ drop (Suc i) open) vs) [0..<length open]
      \<or> list_ex (\<lambda>i. open ! i + v < t \<and> fillGroups t (open[i := open ! i + v]) vs) [0..<length open])"

definition partitionsInto :: "card list \<Rightarrow> nat \<Rightarrow> bool" where
  "partitionsInto cs t = (cs \<noteq> [] \<and> fillGroups t [] (map (\<lambda>c. pipValue (rank c)) cs))"

definition exampleHelpers :: helpers where
  "exampleHelpers = \<lparr>rankValue = pipValue, canPartitionIntoSums = partitionsInto,
     sortCardsByRank = sort_key (\<lambda>c. - int (pipValue (rank c))),
     createCaptureStack = (\<lambda>c captured opp. captured @ (case opp of None \<Rightarrow> [] | Some oc \<Rightarrow> [oc]) @ [c])\<rparr>"

text \<open>Player 0 has staged the loose 5 of spades, the 7 of spades from the top of the
  opponent's captures and the 4 of diamonds from the hand.\<close>

definition stagedStack :: temporaryStack where
  "stagedStack = \<lparr>stackId = ''temp-1'',
     cards = [tagged FromTable (mk R5 Spades), tagged FromOpponentCapture (mk R7 Spades),
              tagged FromHand (mk R4 Diamonds)],
     owner = 0\<rparr>"

definition stagedState :: gameState where
  "stagedState = emptyState\<lparr>playerHands := [[mk R2 Hearts], [mk King Clubs]],
     tableCards := [Loose (mk R9 Spades), TemporaryStack stagedStack],
     playerCaptures := [[], [[mk R7 Diamonds, mk R7 Clubs]]]\<rparr>"

text \<open>The same position when the staged 7 of spades was the opponent's only capture.\<close>

definition stagedLastCapture :: gameState where
  "stagedLastCapture = stagedState\<lparr>playerCaptures := [[], []]\<rparr>"

text \<open>Round 1: player 0 owns a build of 6; and the same hands without the build.\<close>

definition ownsBuildState :: gameState where
  "ownsBuildState = emptyState\<lparr>playerHands := [[mk R6 Hearts, mk R2 Clubs], [mk R9 Diamonds]],
     tableCards := [Build \<lparr>buildId = ''build-1'', cards = [mk R4 Clubs, mk R2 Spades], value = 6,
                            owner = 0, isExtendable = True\<rparr>,
                    Loose (mk R3 Spades)]\<rparr>"

definition plainState :: gameState where
  "plainState = emptyState\<lparr>playerHands := [[mk R6 Hearts, mk R2 Clubs], [mk R9 Diamonds]],
     tableCards := [Loose (mk R3 Spades)]\<rparr>"

text \<open>A build of 8 owned by player 1, or by player 0, and a stack of table cards that
  adds up to 8, staged by player 0.\<close>

definition opponentBuild8 :: build where
  "opponentBuild8 = \<lparr>buildId = ''build-8'', cards = [mk R5 Diamonds, mk R3 Clubs], value = 8,
     owner = 1, isExtendable = True\<rparr>"

definition ownBuild8 :: build where
  "ownBuild8 = opponentBuild8\<lparr>build.owner := 0\<rparr>"

definition tableStack8 :: temporaryStack where
  "tableStack8 = \<lparr>stackId = ''temp-3'',
     cards = [tagged FromTable (mk R6 Spades), tagged FromTable (mk R2 Diamonds)], owner = 0\<rparr>"

definition reinforceState :: gameState where
  "reinforceState = emptyState\<lparr>playerHands := [[mk R8 Hearts, mk R8 Clubs], [mk R8 Spades]],
     tableCards := [Build opponentBuild8, TemporaryStack tableStack8]\<rparr>"

definition mergeState :: gameState where
  "mergeState = reinforceState\<lparr>tableCards := [Build ownBuild8, TemporaryStack tableStack8]\<rparr>"

text \<open>Player 0 has staged the 5 of hearts from the hand on the loose 3 of spades, or the 4 of
  hearts on the loose 4 of spades; the hand is what is left.\<close>

definition fiveOnThree :: temporaryStack where
  "fiveOnThree = \<lparr>stackId = ''temp-4'',
     cards = [tagged FromHand (mk R5 Hearts), tagged FromTable (mk R3 Spades)], owner = 0\<rparr>"

definition fourOnFour :: temporaryStack where
  "fourOnFour = \<lparr>stackId = ''temp-5'',
     cards = [tagged FromHand (mk R4 Hearts), tagged FromTable (mk R4 Spades)], owner = 0\<rparr>"

definition finalizeState :: "temporaryStack \<Rightarrow> card list \<Rightarrow> gameState" where
  "finalizeState st hand = emptyState\<lparr>playerHands := [hand, [mk R9 Diamonds]],
     tableCards := [TemporaryStack st, Loose (mk Queen Hearts)]\<rparr>"

text \<open>Player 0 to move with the given hand, a loose 3 of spades on the table; and a build
  of 5 owned by player 1.\<close>

definition buildState :: "card list \<Rightarrow> gameState" where
  "buildState hand = emptyState\<lparr>playerHands := [hand, [mk R9 Diamonds]],
     tableCards := [Loose (mk R3 Spades)]\<rparr>"

definition opponentBuild5 :: build where
  "opponentBuild5 = \<lparr>buildId = ''build-5'', cards = [mk R3 Diamonds, mk R2 Diamonds], value = 5,
     owner = 1, isExtendable = True\<rparr>"

text \<open>Player 0 to move with the given hand; the build of 5 of player 1 is on the table.\<close>

definition extendState :: "card list \<Rightarrow> gameState" where
  "extendState hand = emptyState\<lparr>playerHands := [hand, [mk R9 Diamonds]],
     tableCards := [Build opponentBuild5]\<rparr>"

text \<open>Player 0 holds a 7 and a 2; a 7 lies on the table.\<close>

definition captureState :: gameState where
  "captureState = emptyState\<lparr>playerHands := [[mk R7 Diamonds, mk R2 Clubs], [mk R9 Diamonds]],
     tableCards := [Loose (mk R7 Clubs)]\<rparr>"

text \<open>Player 0 owns a build of 6, has staged the 4 of clubs from the hand on the loose 3 of
  spades and holds a 2 and a 9.\<close>

definition sixBuild :: build where
  "sixBuild = \<lparr>buildId = ''build-6'', cards = [mk R4 Spades, mk R2 Spades], value = 6,
     owner = 0, isExtendable = True\<rparr>"

definition fourOnThree :: temporaryStack where
  "fourOnThree = \<lparr>stackId = ''temp-6'',
     cards = [tagged FromHand (mk R4 Clubs), tagged FromTable (mk R3 Spades)], owner = 0\<rparr>"

definition buildOwnerState :: gameState where
  "buildOwnerState = emptyState\<lparr>playerHands := [[mk R2 Hearts, mk R9 Diamonds], [mk King Clubs]],
     tableCards := [Build sixBuild, TemporaryStack fourOnThree]\<rparr>"

section \<open>Conservation of cards\<close>

text \<open>
  A card is identified by rank and suit. \<open>allCards\<close> is the multiset of the cards of
  the two hands, of the table (loose cards, members of builds and of stacks), of the capture
  sets and of the deck.
\<close>

definition cardKey :: "card \<Rightarrow> rank \<times> suit" where
  "cardKey c = (rank c, suit c)"

definition keys :: "card list \<Rightarrow> (rank \<times> suit) multiset" where
  "keys cs = mset (map cardKey cs)"

definition tableKeys :: "tableEntity list \<Rightarrow> (rank \<times> suit) multiset" where
  "tableKeys items = keys (concat (map entityCards items))"

definition allCards :: "gameState \<Rightarrow> (rank \<times> suit) multiset" where
  "allCards s = keys (concat (playerHands s)) + tableKeys (tableCards s)
     + keys (concat (concat (playerCaptures s))) + keys (deck s)"

text \<open>
  The items that an action names are on the table: the table items that match them, by
  identifier or by rank and suit, are these items and no others.
\<close>

definition presentOnTable :: "tableEntity list \<Rightarrow> tableEntity list \<Rightarrow> bool" where
  "presentOnTable items tableCards' \<longleftrightarrow>
     mset (filter (\<lambda>item. list_ex (matchesItem item) items) tableCards') = mset items"

text \<open>The identifiers of the builds on the table.\<close>

definition buildIds :: "tableEntity list \<Rightarrow> string list" where
  "buildIds items = concat (map (\<lambda>e. case e of Build b \<Rightarrow> [buildId b] | _ \<Rightarrow> []) items)"

section \<open>Properties\<close>

subsection \<open>Round transition\<close>

lemma dealLoop_enough:
  "2 * n \<le> length d \<Longrightarrow>
   dealLoop n h0 h1 d =
     (h0 @ map (\<lambda>i. rev d ! (2 * i)) [0..<n],
      h1 @ map (\<lambda>i. rev d ! (2 * i + 1)) [0..<n],
      take (length d - 2 * n) d)"
proof (induction n arbitrary: h0 h1 d)
  case 0
  then show ?case by simp
next
  case (Suc n)
  from Suc.prems have len: "2 \<le> length d" by simp
  then obtain d' a where d: "d = d' @ [a]"
    by (metis append_butlast_last_id length_0_conv not_numeral_le_zero)
  with len have "1 \<le> length d'" by simp
  then obtain d'' b where d': "d' = d'' @ [b]"
    by (metis append_butlast_last_id length_0_conv not_one_le_zero)
  have len'': "2 * n \<le> length d''" using Suc.prems d d' by simp
  have step: "dealLoop (Suc n) h0 h1 d = dealLoop n (h0 @ [a]) (h1 @ [b]) d''"
    by (simp add: d d' butlast_append)
  have m0: "map (\<lambda>i. rev d ! (2 * i)) [0..<Suc n] = a # map (\<lambda>i. rev d'' ! (2 * i)) [0..<n]"
    by (simp add: d d' upt_conv_Cons map_Suc_upt [symmetric] del: upt_Suc)
  have m1: "map (\<lambda>i. rev d ! (2 * i + 1)) [0..<Suc n] = b # map (\<lambda>i. rev d'' ! (2 * i + 1)) [0..<n]"
    by (simp add: d d' upt_conv_Cons map_Suc_upt [symmetric] del: upt_Suc)
  have t: "take (length d - 2 * Suc n) d = take (length d'' - 2 * n) d''"
    by (simp add: d d')
  show ?case
    unfolding step Suc.IH [OF len''] m0 m1 t by simp
qed

text \<open>
  C8. With both hands empty and at least 20 cards in the deck, \<open>startNextRound\<close> sets
  the round to 2 and deals from the top (the end) of the deck alternately: player 0
  receives the cards at the even positions counted from the top, player 1 those at the odd
  positions, ten cards each; the twenty cards leave the deck and the table is unchanged.
  With fewer than 20 cards in the deck the state is returned unchanged.
\<close>

theorem startNextRound_deals:
  assumes "playerHands s = [[], []]"
  shows "(20 \<le> length (deck s) \<longrightarrow>
           (\<exists>s'. startNextRound s = Inr s' \<and> round s' = 2 \<and> tableCards s' = tableCards s
              \<and> playerHands s' = [map (\<lambda>i. rev (deck s) ! (2 * i)) [0..<10],
                                   map (\<lambda>i. rev (deck s) ! (2 * i + 1)) [0..<10]]
              \<and> length (playerHands s' ! 0) = 10 \<and> length (playerHands s' ! 1) = 10
              \<and> deck s' = take (length (deck s) - 20) (deck s)
              \<and> currentPlayer s' = currentPlayer s \<and> playerCaptures s' = playerCaptures s))
       \<and> (length (deck s) < 20 \<longrightarrow> startNextRound s = Inr s)"
proof (intro conjI impI)
  assume big: "20 \<le> length (deck s)"
  then have "2 * 10 \<le> length (deck s)" by simp
  note dl = dealLoop_enough [OF this, of "[]" "[]"]
  show "\<exists>s'. startNextRound s = Inr s' \<and> round s' = 2 \<and> tableCards s' = tableCards s
              \<and> playerHands s' = [map (\<lambda>i. rev (deck s) ! (2 * i)) [0..<10],
                                   map (\<lambda>i. rev (deck s) ! (2 * i + 1)) [0..<10]]
              \<and> length (playerHands s' ! 0) = 10 \<and> length (playerHands s' ! 1) = 10
              \<and> deck s' = take (length (deck s) - 20) (deck s)
              \<and> currentPlayer s' = currentPlayer s \<and> playerCaptures s' = playerCaptures s"
    using big by (simp add: startNextRound_def assms dl del: dealLoop.simps upt_Suc)
next
  assume "length (deck s) < 20"
  then show "startNextRound s = Inr s" by (simp add: startNextRound_def)
qed

theorem startNextRound_deals_witness:
  "playerHands roundOneOver = [[], []] \<and> 20 \<le> length (deck roundOneOver)
   \<and> (\<exists>s'. startNextRound roundOneOver = Inr s' \<and> round s' = 2
         \<and> tableCards s' = [Loose (mk R7 Spades)]
         \<and> playerHands s' = [map (\<lambda>r. mk r Clubs) [R10, R8, R6, R4, R2] @ map (\<lambda>r. mk r Hearts) [R10, R8, R6, R4, R2],
                              map (\<lambda>r. mk r Clubs) [R9, R7, R5, R3, Ace] @ map (\<lambda>r. mk r Hearts) [R9, R7, R5, R3, Ace]]
         \<and> deck s' = [])
   \<and> playerHands shortDeck = [[], []] \<and> length (deck shortDeck) < 20
   \<and> startNextRound shortDeck = Inr shortDeck"
proof -
  have h1: "playerHands roundOneOver = [[], []]" and h2: "playerHands shortDeck = [[], []]"
    by (simp_all add: roundOneOver_def shortDeck_def emptyState_def)
  have l1: "20 \<le> length (deck roundOneOver)" and l2: "length (deck shortDeck) < 20"
    by (simp_all add: roundOneOver_def shortDeck_def emptyState_def pips_def)
  have ups: "[0..<10] = [0, 1, 2, 3, 4, 5, 6, 7, 8, 9::nat]"
    by (simp add: upt_rec)
  from startNextRound_deals [OF h1] l1
  obtain s' where s': "startNextRound roundOneOver = Inr s'" "round s' = 2"
    "tableCards s' = tableCards roundOneOver"
    "playerHands s' = [map (\<lambda>i. rev (deck roundOneOver) ! (2 * i)) [0..<10],
                       map (\<lambda>i. rev (deck roundOneOver) ! (2 * i + 1)) [0..<10]]"
    "deck s' = take (length (deck roundOneOver) - 20) (deck roundOneOver)"
    by blast
  have a: "tableCards s' = [Loose (mk R7 Spades)]"
    using s'(3) by (simp add: roundOneOver_def emptyState_def)
  have b: "playerHands s' = [map (\<lambda>r. mk r Clubs) [R10, R8, R6, R4, R2] @ map (\<lambda>r. mk r Hearts) [R10, R8, R6, R4, R2],
                              map (\<lambda>r. mk r Clubs) [R9, R7, R5, R3, Ace] @ map (\<lambda>r. mk r Hearts) [R9, R7, R5, R3, Ace]]"
    unfolding s'(4) ups by (simp add: roundOneOver_def emptyState_def pips_def)
  have c: "deck s' = []"
    using s'(5) by (simp add: roundOneOver_def emptyState_def pips_def)
  from startNextRound_deals [OF h2] l2 have d: "startNextRound shortDeck = Inr shortDeck"
    by blast
  show ?thesis using h1 h2 l1 l2 s'(1,2) a b c d by blast
qed

subsection \<open>Scoring\<close>

lemma fold_scoreCard_aces:
  "aces (fold scoreCard cs d) = aces d + length (filter (\<lambda>c. rank c = Ace) cs)"
  by (induction cs arbitrary: d) (simp_all add: scoreCard_def Let_def)

lemma suitText_no_literal:
  "suitText su \<noteq> spadeLiteral" "suitText su \<noteq> diamondLiteral"
  by (cases su; simp add: suitText_def spadeLiteral_def diamondLiteral_def)+

lemma fold_scoreCard_big:
  "bigCasino (fold scoreCard cs d) = bigCasino d"
  by (induction cs arbitrary: d) (simp_all add: scoreCard_def Let_def suitText_no_literal)

lemma fold_scoreCard_little:
  "littleCasino (fold scoreCard cs d) = littleCasino d"
  by (induction cs arbitrary: d) (simp_all add: scoreCard_def Let_def suitText_no_literal)

lemma fold_scoreCard_other:
  "mostCards (fold scoreCard cs d) = mostCards d"
  "mostSpades (fold scoreCard cs d) = mostSpades d"
  "cardCount (fold scoreCard cs d) = cardCount d"
  "spadeCount (fold scoreCard cs d) = spadeCount d"
  "total (fold scoreCard cs d) = total d"
  by (induction cs arbitrary: d; simp add: scoreCard_def Let_def)+

lemma awardMostCards_fields:
  assumes "awardMostCards d0 d1 = (e0, e1)" "mostCards d0 = 0" "mostCards d1 = 0"
  shows "mostCards e0 = awarded (cardCount d0) (cardCount d1)"
    and "mostCards e1 = awarded (cardCount d1) (cardCount d0)"
    and "mostSpades e0 = mostSpades d0" and "mostSpades e1 = mostSpades d1"
    and "spadeCount e0 = spadeCount d0" and "spadeCount e1 = spadeCount d1"
    and "bigCasino e0 = bigCasino d0" and "bigCasino e1 = bigCasino d1"
    and "littleCasino e0 = littleCasino d0" and "littleCasino e1 = littleCasino d1"
    and "aces e0 = aces d0" and "aces e1 = aces d1"
  using assms by (auto simp: awardMostCards_def awarded_def split: if_splits)

lemma awardMostSpades_fields:
  assumes "awardMostSpades d0 d1 = (e0, e1)" "mostSpades d0 = 0" "mostSpades d1 = 0"
  shows "mostSpades e0 = awarded (spadeCount d0) (spadeCount d1)"
    and "mostSpades e1 = awarded (spadeCount d1) (spadeCount d0)"
    and "mostCards e0 = mostCards d0" and "mostCards e1 = mostCards d1"
    and "bigCasino e0 = bigCasino d0" and "bigCasino e1 = bigCasino d1"
    and "littleCasino e0 = littleCasino d0" and "littleCasino e1 = littleCasino d1"
    and "aces e0 = aces d0" and "aces e1 = aces d1"
  using assms by (auto simp: awardMostSpades_def awarded_def split: if_splits)

lemma total_sumTotal:
  "total (sumTotal d) = mostCards d + mostSpades d + bigCasino d + littleCasino d + aces d"
  by (simp add: sumTotal_def)

lemma tally_fields:
  "mostCards (tally cs) = 0" "mostSpades (tally cs) = 0" "bigCasino (tally cs) = 0"
  "littleCasino (tally cs) = 0" "aces (tally cs) = 0"
  "cardCount (tally cs) = length cs" "spadeCount (tally cs) = 0"
  by (simp_all add: tally_def emptyDetail_def suitText_no_literal)

text \<open>
  The two tie branches of \<open>calculateScores\<close> are guarded by a positive count: when
  nobody has captured a card it awards nothing, where the specification's words give +1 each
  for the tie of cards and for the tie of spades.
\<close>

theorem calculateScores_tie_at_zero:
  "(\<exists>ds. calculateScores [[], []] = Inr \<lparr>resScores = [0, 0], resDetails = ds, resWinner = None\<rparr>)
   \<and> [claimedScore (concat []) (concat []), claimedScore (concat []) (concat [])] = [2, 2]"
  by (simp add: calculateScores_def tally_def emptyDetail_def awardMostCards_def
      awardMostSpades_def sumTotal_def claimedScore_def claimedAward_def spadesIn_def
      cardPoints_def Let_def)

text \<open>
  C9. The code does not award what the claim states. The literals that
  \<open>calculateScores\<close> compares a suit with are no suit, so for every pair of capture
  sets the spade counts are 0 and no player gets points for most spades, for the ten of
  diamonds or for the two of spades: a total is the points for most cards plus one per ace.
  With the ace and the two of spades and the ten of diamonds against the ace of hearts the
  scores are 3 and 1, where the claim gives 8 and 1.
\<close>

theorem calculateScores_suit_awards:
  "(\<exists>ds. calculateScores [g0, g1] =
       Inr \<lparr>resScores = [computedScore (concat g0) (concat g1), computedScore (concat g1) (concat g0)],
            resDetails = ds,
            resWinner = strictWinner (computedScore (concat g0) (concat g1))
                                     (computedScore (concat g1) (concat g0))\<rparr>
     \<and> map spadeCount ds = [0, 0] \<and> map mostSpades ds = [0, 0]
     \<and> map bigCasino ds = [0, 0] \<and> map littleCasino ds = [0, 0])
   \<and> calculateScores [[[mk Ace Spades, mk R2 Spades, mk R10 Diamonds]], [[mk Ace Hearts]]] =
       Inr \<lparr>resScores = [3, 1],
            resDetails = [\<lparr>mostCards = 2, mostSpades = 0, bigCasino = 0, littleCasino = 0, aces = 1,
                             total = 3, cardCount = 3, spadeCount = 0\<rparr>,
                          \<lparr>mostCards = 0, mostSpades = 0, bigCasino = 0, littleCasino = 0, aces = 1,
                             total = 1, cardCount = 1, spadeCount = 0\<rparr>],
            resWinner = Some 0\<rparr>
   \<and> [claimedScore [mk Ace Spades, mk R2 Spades, mk R10 Diamonds] [mk Ace Hearts],
       claimedScore [mk Ace Hearts] [mk Ace Spades, mk R2 Spades, mk R10 Diamonds]] = [8, 1]"
proof (intro conjI)
  let ?a = "concat g0" and ?b = "concat g1"
  obtain e0 e1 where e: "awardMostCards (tally ?a) (tally ?b) = (e0, e1)"
    by (cases "awardMostCards (tally ?a) (tally ?b)")
  obtain f0 f1 where f: "awardMostSpades e0 e1 = (f0, f1)"
    by (cases "awardMostSpades e0 e1")
  note ef = awardMostCards_fields [OF e tally_fields(1) tally_fields(1)]
  have ms: "mostSpades e0 = 0" "mostSpades e1 = 0"
    using ef(3,4) by (simp_all add: tally_fields)
  note ff = awardMostSpades_fields [OF f ms]
  have sc: "spadeCount e0 = 0" "spadeCount e1 = 0"
    using ef(5,6) by (simp_all add: tally_fields)
  from f sc have same: "f0 = e0" "f1 = e1"
    by (simp_all add: awardMostSpades_def)
  have t0: "total (sumTotal (fold scoreCard ?a f0)) = computedScore ?a ?b"
    by (simp add: total_sumTotal fold_scoreCard_aces fold_scoreCard_big fold_scoreCard_little
        fold_scoreCard_other same ms ef tally_fields computedScore_def)
  have t1: "total (sumTotal (fold scoreCard ?b f1)) = computedScore ?b ?a"
    by (simp add: total_sumTotal fold_scoreCard_aces fold_scoreCard_big fold_scoreCard_little
        fold_scoreCard_other same ms ef tally_fields computedScore_def)
  have res: "calculateScores [g0, g1] =
      Inr \<lparr>resScores = [computedScore ?a ?b, computedScore ?b ?a],
           resDetails = [sumTotal (fold scoreCard ?a f0), sumTotal (fold scoreCard ?b f1)],
           resWinner = strictWinner (computedScore ?a ?b) (computedScore ?b ?a)\<rparr>"
    unfolding calculateScores_def
    by (simp add: Let_def e f t0 t1 strictWinner_def)
  have zero: "map spadeCount [sumTotal (fold scoreCard ?a f0), sumTotal (fold scoreCard ?b f1)] = [0, 0]"
    "map mostSpades [sumTotal (fold scoreCard ?a f0), sumTotal (fold scoreCard ?b f1)] = [0, 0]"
    "map bigCasino [sumTotal (fold scoreCard ?a f0), sumTotal (fold scoreCard ?b f1)] = [0, 0]"
    "map littleCasino [sumTotal (fold scoreCard ?a f0), sumTotal (fold scoreCard ?b f1)] = [0, 0]"
    by (simp_all add: sumTotal_def fold_scoreCard_big fold_scoreCard_little fold_scoreCard_other
        same ms sc ef tally_fields)
  from res zero
  show "\<exists>ds. calculateScores [g0, g1] =
       Inr \<lparr>resScores = [computedScore (concat g0) (concat g1), computedScore (concat g1) (concat g0)],
            resDetails = ds,
            resWinner = strictWinner (computedScore (concat g0) (concat g1))
                                     (computedScore (concat g1) (concat g0))\<rparr>
     \<and> map spadeCount ds = [0, 0] \<and> map mostSpades ds = [0, 0]
     \<and> map bigCasino ds = [0, 0] \<and> map littleCasino ds = [0, 0]"
    by (intro exI [of _ "[sumTotal (fold scoreCard ?a f0), sumTotal (fold scoreCard ?b f1)]"] conjI)
  show "calculateScores [[[mk Ace Spades, mk R2 Spades, mk R10 Diamonds]], [[mk Ace Hearts]]] =
       Inr \<lparr>resScores = [3, 1],
            resDetails = [\<lparr>mostCards = 2, mostSpades = 0, bigCasino = 0, littleCasino = 0, aces = 1,
                             total = 3, cardCount = 3, spadeCount = 0\<rparr>,
                          \<lparr>mostCards = 0, mostSpades = 0, bigCasino = 0, littleCasino = 0, aces = 1,
                             total = 1, cardCount = 1, spadeCount = 0\<rparr>],
            resWinner = Some 0\<rparr>"
    by (simp add: calculateScores_def tally_def emptyDetail_def awardMostCards_def
        awardMostSpades_def sumTotal_def scoreCard_def scoringCard_def mk_def Let_def
        suitText_def spadeLiteral_def diamondLiteral_def)
  show "[claimedScore [mk Ace Spades, mk R2 Spades, mk R10 Diamonds] [mk Ace Hearts],
       claimedScore [mk Ace Hearts] [mk Ace Spades, mk R2 Spades, mk R10 Diamonds]] = [8, 1]"
    by (simp add: claimedScore_def claimedAward_def spadesIn_def cardPoints_def mk_def)
qed

subsection \<open>Returning the cards of a staging stack\<close>

lemma at_in_range: "i < length xs \<Longrightarrow> at xs i = Some (xs ! i)"
  by (simp add: at_def)

lemma setAt_in_range: "i < length xs \<Longrightarrow> setAt xs i v = xs[i := v]"
  by (simp add: setAt_def)

lemma restoreOpponentCaptures_two:
  assumes "currentPlayer s \<le> 1" "length (playerCaptures s) = 2"
  shows "restoreOpponentCaptures s back =
     (if back = [] then playerCaptures s
      else (playerCaptures s)[1 - currentPlayer s :=
             returnToCaptures (playerCaptures s ! (1 - currentPlayer s)) back])"
proof -
  have "1 - currentPlayer s < length (playerCaptures s)" using assms by arith
  then show ?thesis
    using assms(1) by (simp add: restoreOpponentCaptures_def at_def setAt_def Let_def)
qed

text \<open>
  C10. Cancelling and disbanding a staging stack give the same state, except that
  disbanding also passes the turn. The cards tagged \<^verbatim>\<open>'hand'\<close> are appended to
  the acting player's hand; the cards tagged \<^verbatim>\<open>'opponentCapture'\<close> are appended to
  the last capture group of the opponent, and form a new group only when the opponent has no
  group; all other cards are appended to the table as loose cards, the stack being removed.
\<close>

theorem staging_stack_cards_return:
  assumes "currentPlayer s \<le> 1" "length (playerHands s) = 2" "length (playerCaptures s) = 2"
  shows "\<exists>s'. handleCancelStagingStack s st = Inr s'
     \<and> handleDisbandStagingStack s st = Inr (nextPlayer s')
     \<and> playerHands s' ! currentPlayer s =
         playerHands s ! currentPlayer s
         @ map stripSource (filter (\<lambda>c. source c = Some FromHand) (temporaryStack.cards st))
     \<and> playerHands s' ! (1 - currentPlayer s) = playerHands s ! (1 - currentPlayer s)
     \<and> tableCards s' =
         filter (notStack (stackId st)) (tableCards s)
         @ map Loose (map stripSource
             (filter (\<lambda>c. source c \<noteq> Some FromHand \<and> source c \<noteq> Some FromOpponentCapture)
                (temporaryStack.cards st)))
     \<and> playerCaptures s' ! currentPlayer s = playerCaptures s ! currentPlayer s
     \<and> playerCaptures s' ! (1 - currentPlayer s) =
         (let caps = playerCaptures s ! (1 - currentPlayer s);
              back = map stripSource
                (filter (\<lambda>c. source c = Some FromOpponentCapture) (temporaryStack.cards st))
          in if back = [] then caps
             else if caps = [] then [back]
             else butlast caps @ [last caps @ back])"
proof -
  let ?cp = "currentPlayer s"
  let ?s' = "s\<lparr>playerHands := (playerHands s)[?cp := playerHands s ! ?cp @ handCardsOf st],
                tableCards := filter (notStack (stackId st)) (tableCards s) @ map Loose (looseCardsOf st),
                playerCaptures := restoreOpponentCaptures s (opponentCardsOf st)\<rparr>"
  have cpl: "?cp < length (playerHands s)" using assms by simp
  have cancel: "handleCancelStagingStack s st = Inr ?s'"
    by (simp add: handleCancelStagingStack_def at_in_range [OF cpl] Let_def)
  have disband: "handleDisbandStagingStack s st = Inr (nextPlayer ?s')"
    by (simp add: handleDisbandStagingStack_def at_in_range [OF cpl] Let_def)
  have ne: "1 - ?cp \<noteq> ?cp" using assms(1) by arith
  have opl: "1 - ?cp < length (playerCaptures s)" using assms by arith
  have hands1: "playerHands ?s' ! ?cp = playerHands s ! ?cp @ handCardsOf st"
    using cpl by simp
  have hands2: "playerHands ?s' ! (1 - ?cp) = playerHands s ! (1 - ?cp)"
    using ne by simp
  have caps1: "playerCaptures ?s' ! ?cp = playerCaptures s ! ?cp"
    using ne by (simp add: restoreOpponentCaptures_two [OF assms(1,3)])
  have caps2: "playerCaptures ?s' ! (1 - ?cp) =
      (if opponentCardsOf st = [] then playerCaptures s ! (1 - ?cp)
       else returnToCaptures (playerCaptures s ! (1 - ?cp)) (opponentCardsOf st))"
    using opl by (simp add: restoreOpponentCaptures_two [OF assms(1,3)])
  show ?thesis
    apply (rule exI [of _ ?s'])
    apply (intro conjI)
    subgoal by (rule cancel)
    subgoal by (rule disband)
    subgoal using hands1 by (simp add: handCardsOf_def)
    subgoal by (rule hands2)
    subgoal by (simp add: looseCardsOf_def)
    subgoal by (rule caps1)
    subgoal unfolding caps2 by (simp add: Let_def returnToCaptures_def opponentCardsOf_def)
    done
qed

theorem staging_stack_cards_return_witness:
  "currentPlayer stagedState \<le> 1 \<and> length (playerHands stagedState) = 2
   \<and> length (playerCaptures stagedState) = 2
   \<and> (\<exists>s'. handleCancelStagingStack stagedState stagedStack = Inr s'
          \<and> handleDisbandStagingStack stagedState stagedStack = Inr (nextPlayer s')
          \<and> playerHands s' ! 0 = [mk R2 Hearts, mk R4 Diamonds]
          \<and> playerHands s' ! 1 = [mk King Clubs]
          \<and> tableCards s' = [Loose (mk R9 Spades), Loose (mk R5 Spades)]
          \<and> playerCaptures s' ! 0 = []
          \<and> playerCaptures s' ! 1 = [[mk R7 Diamonds, mk R7 Clubs, mk R7 Spades]])
   \<and> currentPlayer stagedLastCapture \<le> 1 \<and> length (playerHands stagedLastCapture) = 2
   \<and> length (playerCaptures stagedLastCapture) = 2
   \<and> (\<exists>s'. handleCancelStagingStack stagedLastCapture stagedStack = Inr s'
          \<and> playerCaptures s' ! 1 = [[mk R7 Spades]])"
proof -
  have a: "currentPlayer stagedState \<le> 1" "length (playerHands stagedState) = 2"
    "length (playerCaptures stagedState) = 2"
    by (simp_all add: stagedState_def emptyState_def)
  have b: "currentPlayer stagedLastCapture \<le> 1" "length (playerHands stagedLastCapture) = 2"
    "length (playerCaptures stagedLastCapture) = 2"
    by (simp_all add: stagedLastCapture_def stagedState_def emptyState_def)
  have 1: "\<exists>s'. handleCancelStagingStack stagedState stagedStack = Inr s'
          \<and> handleDisbandStagingStack stagedState stagedStack = Inr (nextPlayer s')
          \<and> playerHands s' ! 0 = [mk R2 Hearts, mk R4 Diamonds]
          \<and> playerHands s' ! 1 = [mk King Clubs]
          \<and> tableCards s' = [Loose (mk R9 Spades), Loose (mk R5 Spades)]
          \<and> playerCaptures s' ! 0 = []
          \<and> playerCaptures s' ! 1 = [[mk R7 Diamonds, mk R7 Clubs, mk R7 Spades]]"
    using staging_stack_cards_return [OF a, of stagedStack]
    by (auto simp add: stagedState_def emptyState_def stagedStack_def tagged_def stripSource_def mk_def)
  have 2: "\<exists>s'. handleCancelStagingStack stagedLastCapture stagedStack = Inr s'
          \<and> playerCaptures s' ! 1 = [[mk R7 Spades]]"
    using staging_stack_cards_return [OF b, of stagedStack]
    by (auto simp add: stagedLastCapture_def stagedState_def emptyState_def stagedStack_def tagged_def
        stripSource_def mk_def)
  show ?thesis using a b 1 2 by blast
qed

subsection \<open>Trailing\<close>

text \<open>In round 2 \<open>handleTrailCard\<close> never places the card on the table: it leaves
  the state unchanged or puts a temporary stack holding the one card, tagged
  \<^verbatim>\<open>'hand'\<close>, on the table.\<close>

lemma handleTrailCard_round_two:
  "(round s = 2 \<longrightarrow>
        handleTrailCard s c player newId = s
        \<or> (\<exists>hands''. handleTrailCard s c player newId =
              s\<lparr>playerHands := hands'',
                tableCards := tableCards s
                  @ [TemporaryStack \<lparr>stackId = newId, cards = [tagged FromHand c],
                                      owner = currentPlayer s\<rparr>]\<rparr>))"
  by (auto simp add: handleTrailCard_def handleStageSingleCardFromHand_def split: option.splits)

text \<open>
  C7. The validator does what the claim says and its caller passes it the wrong player.
  \<open>validateTrail\<close>, given the index of the player, rejects the round-1 trail of a
  player who owns a build. \<open>handleTrailCard\<close> validates for \<^verbatim>\<open>player - 1\<close>
  (``Convert to 0-based for validation''), and \<open>handleDragEnd\<close> passes it the current
  player of the state, which is 0-based already. So in round 1 a trail of player 0 is never
  refused, and a trail of player 1 is refused exactly when player 0 owns a build. With the
  build of 6 of player 0 on the table, player 0 trails the 2 of clubs: the card lies on the
  table and the turn has passed, as after \<open>handleTrail\<close>, which the server calls with
  no validation at all. In the same position player 1, who owns no build, may not trail.
\<close>

theorem trail_by_build_owner:
  "(round s = 1 \<and> currentPlayer s = 0 \<longrightarrow> handleDragEnd s c newId = handleTrail s c)
   \<and> (round s = 1 \<and> currentPlayer s = 1 \<longrightarrow>
        handleDragEnd s c newId = (if hasActiveBuild (tableCards s) 0 then s else handleTrail s c))
   \<and> round ownsBuildState = 1 \<and> currentPlayer ownsBuildState = 0
   \<and> hasActiveBuild (tableCards ownsBuildState) 0
   \<and> \<not> valid (validateTrail (tableCards ownsBuildState) (mk R2 Clubs) 0 1)
   \<and> handleDragEnd ownsBuildState (mk R2 Clubs) ''temp-2'' =
        ownsBuildState\<lparr>currentPlayer := 1, playerHands := [[mk R6 Hearts], [mk R9 Diamonds]],
          tableCards := tableCards ownsBuildState @ [Loose (mk R2 Clubs)]\<rparr>
   \<and> handleTrail ownsBuildState (mk R2 Clubs) =
        ownsBuildState\<lparr>currentPlayer := 1, playerHands := [[mk R6 Hearts], [mk R9 Diamonds]],
          tableCards := tableCards ownsBuildState @ [Loose (mk R2 Clubs)]\<rparr>
   \<and> \<not> hasActiveBuild (tableCards ownsBuildState) 1
   \<and> handleDragEnd (ownsBuildState\<lparr>currentPlayer := 1\<rparr>) (mk R9 Diamonds) ''temp-2'' =
        ownsBuildState\<lparr>currentPlayer := 1\<rparr>"
proof (intro conjI impI)
  show "handleDragEnd s c newId = handleTrail s c" if "round s = 1 \<and> currentPlayer s = 0"
    using that by (simp add: handleDragEnd_def safeCurrentPlayer_def handleTrailCard_def accept_def)
  show "handleDragEnd s c newId = (if hasActiveBuild (tableCards s) 0 then s else handleTrail s c)"
    if "round s = 1 \<and> currentPlayer s = 1"
    using that
    by (simp add: handleDragEnd_def safeCurrentPlayer_def handleTrailCard_def validateTrail_def
        accept_def reject_def)
  show "round ownsBuildState = 1" "currentPlayer ownsBuildState = 0"
    by (simp_all add: ownsBuildState_def emptyState_def)
  show b: "hasActiveBuild (tableCards ownsBuildState) 0"
    by (simp add: ownsBuildState_def emptyState_def hasActiveBuild_def)
  then show "\<not> valid (validateTrail (tableCards ownsBuildState) (mk R2 Clubs) 0 1)"
    by (simp add: validateTrail_def reject_def)
  show t: "handleTrail ownsBuildState (mk R2 Clubs) =
        ownsBuildState\<lparr>currentPlayer := 1, playerHands := [[mk R6 Hearts], [mk R9 Diamonds]],
          tableCards := tableCards ownsBuildState @ [Loose (mk R2 Clubs)]\<rparr>"
    by (simp add: handleTrail_def ownsBuildState_def emptyState_def removeCardFromHand_def at_def
        sameCard_def mk_def nextPlayer_def)
  then show "handleDragEnd ownsBuildState (mk R2 Clubs) ''temp-2'' =
        ownsBuildState\<lparr>currentPlayer := 1, playerHands := [[mk R6 Hearts], [mk R9 Diamonds]],
          tableCards := tableCards ownsBuildState @ [Loose (mk R2 Clubs)]\<rparr>"
    by (simp add: handleDragEnd_def safeCurrentPlayer_def handleTrailCard_def accept_def
        ownsBuildState_def emptyState_def)
  show "\<not> hasActiveBuild (tableCards ownsBuildState) 1"
    by (simp add: ownsBuildState_def emptyState_def hasActiveBuild_def)
  from b show "handleDragEnd (ownsBuildState\<lparr>currentPlayer := 1\<rparr>) (mk R9 Diamonds) ''temp-2'' =
        ownsBuildState\<lparr>currentPlayer := 1\<rparr>"
    by (simp add: handleDragEnd_def safeCurrentPlayer_def handleTrailCard_def validateTrail_def
        reject_def ownsBuildState_def emptyState_def)
qed

theorem trail_by_build_owner_witness:
  "round ownsBuildState = 1 \<and> currentPlayer ownsBuildState = 0
   \<and> handleDragEnd ownsBuildState (mk R2 Clubs) ''temp-2'' = handleTrail ownsBuildState (mk R2 Clubs)
   \<and> handleDragEnd ownsBuildState (mk R2 Clubs) ''temp-2'' \<noteq> ownsBuildState
   \<and> round (ownsBuildState\<lparr>currentPlayer := 1\<rparr>) = 1
   \<and> currentPlayer (ownsBuildState\<lparr>currentPlayer := 1\<rparr>) = 1
   \<and> handleDragEnd (ownsBuildState\<lparr>currentPlayer := 1\<rparr>) (mk R9 Diamonds) ''temp-2'' =
        ownsBuildState\<lparr>currentPlayer := 1\<rparr>"
proof -
  note t0 = trail_by_build_owner [where s = ownsBuildState and c = "mk R2 Clubs" and newId = "''temp-2''"]
  note t1 = trail_by_build_owner [where s = "ownsBuildState\<lparr>currentPlayer := 1\<rparr>"
      and c = "mk R9 Diamonds" and newId = "''temp-2''"]
  have r: "round ownsBuildState = 1" "currentPlayer ownsBuildState = 0"
    "round (ownsBuildState\<lparr>currentPlayer := 1\<rparr>) = 1"
    "currentPlayer (ownsBuildState\<lparr>currentPlayer := 1\<rparr>) = 1"
    by (simp_all add: ownsBuildState_def emptyState_def)
  from t0 r have 1: "handleDragEnd ownsBuildState (mk R2 Clubs) ''temp-2'' = handleTrail ownsBuildState (mk R2 Clubs)"
    by blast
  from t0 have "handleDragEnd ownsBuildState (mk R2 Clubs) ''temp-2'' =
        ownsBuildState\<lparr>currentPlayer := 1, playerHands := [[mk R6 Hearts], [mk R9 Diamonds]],
          tableCards := tableCards ownsBuildState @ [Loose (mk R2 Clubs)]\<rparr>"
    by blast
  then have 2: "handleDragEnd ownsBuildState (mk R2 Clubs) ''temp-2'' \<noteq> ownsBuildState"
    by (simp add: ownsBuildState_def emptyState_def)
  from t1 r have "handleDragEnd (ownsBuildState\<lparr>currentPlayer := 1\<rparr>) (mk R9 Diamonds) ''temp-2'' =
       (if hasActiveBuild (tableCards (ownsBuildState\<lparr>currentPlayer := 1\<rparr>)) 0
        then ownsBuildState\<lparr>currentPlayer := 1\<rparr>
        else handleTrail (ownsBuildState\<lparr>currentPlayer := 1\<rparr>) (mk R9 Diamonds))"
    by blast
  moreover from t0 have "hasActiveBuild (tableCards ownsBuildState) 0" by blast
  ultimately have 3: "handleDragEnd (ownsBuildState\<lparr>currentPlayer := 1\<rparr>) (mk R9 Diamonds) ''temp-2'' =
        ownsBuildState\<lparr>currentPlayer := 1\<rparr>"
    by simp
  from r 1 2 3 show ?thesis by (intro conjI)
qed

subsection \<open>Reinforcing a build\<close>

text \<open>
  C5, as the claim states it, fails. \<open>handleReinforceOpponentBuildWithStack\<close> keeps the
  owner of the build: player 0 reinforces the build of player 1, which stays the build of
  player 1. And \<open>handleMergeIntoOwnBuild\<close> does not touch \<^verbatim>\<open>isExtendable\<close>:
  an extendable build stays extendable.
\<close>

theorem reinforce_owner_counterexample:
  "currentPlayer reinforceState = 0
   \<and> (\<exists>nb. last (tableCards (handleReinforceOpponentBuildWithStack reinforceState tableStack8 opponentBuild8))
            = Build nb \<and> build.owner nb = 1)
   \<and> (\<exists>nb. last (tableCards (handleMergeIntoOwnBuild mergeState tableStack8 ownBuild8))
            = Build nb \<and> isExtendable nb = True)"
  by (simp add: reinforceState_def mergeState_def emptyState_def opponentBuild8_def ownBuild8_def
      handleReinforceOpponentBuildWithStack_def handleMergeIntoOwnBuild_def Let_def)

text \<open>
  C5, amended. The build that a reinforcement puts on the table has the cards of the old
  build followed by the added cards, and the old value. Reinforcing with a stack that holds
  a hand card (\<open>handleReinforceBuildWithStack\<close>) makes it non-extendable and gives it to
  the acting player; reinforcing an opponent's build with a stack of table cards makes it
  non-extendable and keeps its owner; merging a stack of table cards into the player's own
  build keeps both the owner and \<^verbatim>\<open>isExtendable\<close>; adding a card of the build's
  value from the hand to the own build makes it non-extendable and keeps its owner.
\<close>

theorem reinforcement_build:
  "(\<exists>nb. last (tableCards (handleReinforceBuildWithStack s st b newId)) = Build nb
        \<and> build.cards nb = build.cards b @ map stripSource (temporaryStack.cards st)
        \<and> value nb = value b \<and> isExtendable nb = False \<and> build.owner nb = currentPlayer s)
   \<and> (\<exists>nb. last (tableCards (handleReinforceOpponentBuildWithStack s st b)) = Build nb
        \<and> build.cards nb = build.cards b @ map stripSource (temporaryStack.cards st)
        \<and> value nb = value b \<and> isExtendable nb = False \<and> build.owner nb = build.owner b)
   \<and> (\<exists>nb. last (tableCards (handleMergeIntoOwnBuild s st b)) = Build nb
        \<and> build.cards nb = build.cards b @ map stripSource (temporaryStack.cards st)
        \<and> value nb = value b \<and> isExtendable nb = isExtendable b \<and> build.owner nb = build.owner b)
   \<and> (rankValue h (rank (draggedCard item)) = value b
        \<and> removeCardFromHand (playerHands s) (currentPlayer s) (draggedCard item) = Some (hands', c') \<longrightarrow>
        (\<exists>nb. last (tableCards (handleAddToOwnBuild h s item b)) = Build nb
           \<and> build.cards nb = build.cards b @ [draggedCard item]
           \<and> value nb = value b \<and> isExtendable nb = False \<and> build.owner nb = build.owner b))"
proof (intro conjI impI)
  show "\<exists>nb. last (tableCards (handleReinforceBuildWithStack s st b newId)) = Build nb
        \<and> build.cards nb = build.cards b @ map stripSource (temporaryStack.cards st)
        \<and> value nb = value b \<and> isExtendable nb = False \<and> build.owner nb = currentPlayer s"
    by (simp add: handleReinforceBuildWithStack_def Let_def nextPlayer_def)
  show "\<exists>nb. last (tableCards (handleReinforceOpponentBuildWithStack s st b)) = Build nb
        \<and> build.cards nb = build.cards b @ map stripSource (temporaryStack.cards st)
        \<and> value nb = value b \<and> isExtendable nb = False \<and> build.owner nb = build.owner b"
    by (simp add: handleReinforceOpponentBuildWithStack_def Let_def)
  show "\<exists>nb. last (tableCards (handleMergeIntoOwnBuild s st b)) = Build nb
        \<and> build.cards nb = build.cards b @ map stripSource (temporaryStack.cards st)
        \<and> value nb = value b \<and> isExtendable nb = isExtendable b \<and> build.owner nb = build.owner b"
    by (simp add: handleMergeIntoOwnBuild_def Let_def)
  show "\<exists>nb. last (tableCards (handleAddToOwnBuild h s item b)) = Build nb
           \<and> build.cards nb = build.cards b @ [draggedCard item]
           \<and> value nb = value b \<and> isExtendable nb = False \<and> build.owner nb = build.owner b"
    if "rankValue h (rank (draggedCard item)) = value b
        \<and> removeCardFromHand (playerHands s) (currentPlayer s) (draggedCard item) = Some (hands', c')"
    using that by (simp add: handleAddToOwnBuild_def Let_def nextPlayer_def)
qed

theorem reinforcement_build_witness:
  "rankValue exampleHelpers (rank (draggedCard \<lparr>draggedCard = mk R8 Hearts, draggedSource = FromHand\<rparr>))
     = value ownBuild8
   \<and> removeCardFromHand (playerHands mergeState) (currentPlayer mergeState) (mk R8 Hearts)
       = Some ([[mk R8 Clubs], [mk R8 Spades]], mk R8 Hearts)
   \<and> (\<exists>nb. last (tableCards (handleAddToOwnBuild exampleHelpers mergeState
                 \<lparr>draggedCard = mk R8 Hearts, draggedSource = FromHand\<rparr> ownBuild8)) = Build nb
          \<and> build.cards nb = [mk R5 Diamonds, mk R3 Clubs, mk R8 Hearts]
          \<and> value nb = 8 \<and> isExtendable nb = False \<and> build.owner nb = 0)"
proof -
  let ?item = "\<lparr>draggedCard = mk R8 Hearts, draggedSource = FromHand\<rparr>"
  have v: "rankValue exampleHelpers (rank (draggedCard ?item)) = value ownBuild8"
    by (simp add: exampleHelpers_def pipValue_def mk_def ownBuild8_def opponentBuild8_def)
  have rm: "removeCardFromHand (playerHands mergeState) (currentPlayer mergeState) (draggedCard ?item)
       = Some ([[mk R8 Clubs], [mk R8 Spades]], mk R8 Hearts)"
    by (simp add: mergeState_def reinforceState_def emptyState_def removeCardFromHand_def at_def
        sameCard_def mk_def)
  from reinforcement_build [where h = exampleHelpers and item = ?item and b = ownBuild8
      and s = mergeState and hands' = "[[mk R8 Clubs], [mk R8 Spades]]" and c' = "mk R8 Hearts"]
  have "\<exists>nb. last (tableCards (handleAddToOwnBuild exampleHelpers mergeState ?item ownBuild8)) = Build nb
           \<and> build.cards nb = build.cards ownBuild8 @ [draggedCard ?item]
           \<and> value nb = value ownBuild8 \<and> isExtendable nb = False
           \<and> build.owner nb = build.owner ownBuild8"
    using v rm by blast
  then have "\<exists>nb. last (tableCards (handleAddToOwnBuild exampleHelpers mergeState ?item ownBuild8)) = Build nb
          \<and> build.cards nb = [mk R5 Diamonds, mk R3 Clubs, mk R8 Hearts]
          \<and> value nb = 8 \<and> isExtendable nb = False \<and> build.owner nb = 0"
    by (simp add: ownBuild8_def opponentBuild8_def)
  with v rm show ?thesis by simp
qed

subsection \<open>Finalizing a staging stack\<close>

lemma stripSource_idem: "stripSource \<circ> stripSource = stripSource"
  by (rule ext) (simp add: stripSource_def)

text \<open>
  C6, as the claim states it, fails. The 5 of hearts lies on the 3 of spades and the hand
  holds only a 7: no build value exists, and \<open>handleFinalizeStagingStack\<close> returns the
  error object. The stack is not disbanded: disbanding would return the 5 to the hand, the 3
  to the table and pass the turn.
\<close>

theorem finalize_no_disband_counterexample:
  "handleFinalizeStagingStack exampleHelpers (finalizeState fiveOnThree [mk R7 Clubs]) fiveOnThree ''build-2''
     = Inr NoValidBuild
   \<and> handleDisbandStagingStack (finalizeState fiveOnThree [mk R7 Clubs]) fiveOnThree
     = Inr (emptyState\<lparr>currentPlayer := 1,
              playerHands := [[mk R7 Clubs, mk R5 Hearts], [mk R9 Diamonds]],
              tableCards := [Loose (mk Queen Hearts), Loose (mk R3 Spades)]\<rparr>)"
  by (simp add: handleFinalizeStagingStack_def handleDisbandStagingStack_def at_def Let_def
      findPossibleBuildsFromStack_def finalizeState_def emptyState_def hasActiveBuild_def
      fiveOnThree_def tagged_def mk_def exampleHelpers_def pipValue_def uniqueValues_def
      partitionsInto_def stripSource_def handCardsOf_def opponentCardsOf_def looseCardsOf_def
      restoreOpponentCaptures_def nextPlayer_def)

text \<open>
  C6, amended. Finalizing a staging stack has three outcomes, decided by the build values
  that \<open>findPossibleBuildsFromStack\<close> finds for the acting player. With exactly one value
  the build is created from the cards of the stack, in place of the stack, and the turn
  passes. With more than one, all values are returned with the stack and its hand card, and
  no game state. With none, the error object is returned and no game state: the handler
  does not disband the stack.
\<close>

theorem finalize_outcomes:
  assumes "at (playerHands s) (currentPlayer s) = Some hand"
  shows "(findPossibleBuildsFromStack h st hand (tableCards s) (currentPlayer s) = [v] \<longrightarrow>
            handleFinalizeStagingStack h s st newId =
              Inr (NewState (s\<lparr>currentPlayer := (currentPlayer s + 1) mod 2,
                     tableCards := filter (notStack (stackId st)) (tableCards s)
                       @ [Build \<lparr>buildId = newId, cards = map stripSource (temporaryStack.cards st),
                                  value = v, owner = currentPlayer s, isExtendable = True\<rparr>]\<rparr>)))
       \<and> (1 < length (findPossibleBuildsFromStack h st hand (tableCards s) (currentPlayer s)) \<longrightarrow>
            handleFinalizeStagingStack h s st newId =
              Inr (Options (findPossibleBuildsFromStack h st hand (tableCards s) (currentPlayer s)) st
                     (find (\<lambda>c. source c = Some FromHand) (temporaryStack.cards st))))
       \<and> (findPossibleBuildsFromStack h st hand (tableCards s) (currentPlayer s) = [] \<longrightarrow>
            handleFinalizeStagingStack h s st newId = Inr NoValidBuild)"
proof (intro conjI impI)
  let ?pb = "findPossibleBuildsFromStack h st hand (tableCards s) (currentPlayer s)"
  show "handleFinalizeStagingStack h s st newId =
          Inr (NewState (s\<lparr>currentPlayer := (currentPlayer s + 1) mod 2,
                 tableCards := filter (notStack (stackId st)) (tableCards s)
                   @ [Build \<lparr>buildId = newId, cards = map stripSource (temporaryStack.cards st),
                              value = v, owner = currentPlayer s, isExtendable = True\<rparr>]\<rparr>))"
    if "?pb = [v]"
    using that assms
    by (simp add: handleFinalizeStagingStack_def Let_def nextPlayer_def stripSource_idem)
  show "handleFinalizeStagingStack h s st newId =
          Inr (Options ?pb st (find (\<lambda>c. source c = Some FromHand) (temporaryStack.cards st)))"
    if "1 < length ?pb"
  proof -
    from that have "?pb \<noteq> []" by auto
    with that assms show ?thesis by (simp add: handleFinalizeStagingStack_def Let_def)
  qed
  show "handleFinalizeStagingStack h s st newId = Inr NoValidBuild" if "?pb = []"
    using that assms by (simp add: handleFinalizeStagingStack_def Let_def)
qed

theorem finalize_outcomes_witness:
  "at (playerHands (finalizeState fiveOnThree [mk R8 Clubs, mk R2 Clubs])) 0 = Some [mk R8 Clubs, mk R2 Clubs]
   \<and> findPossibleBuildsFromStack exampleHelpers fiveOnThree [mk R8 Clubs, mk R2 Clubs]
        (tableCards (finalizeState fiveOnThree [mk R8 Clubs, mk R2 Clubs])) 0 = [8]
   \<and> handleFinalizeStagingStack exampleHelpers (finalizeState fiveOnThree [mk R8 Clubs, mk R2 Clubs])
        fiveOnThree ''build-2''
      = Inr (NewState (emptyState\<lparr>currentPlayer := 1,
               playerHands := [[mk R8 Clubs, mk R2 Clubs], [mk R9 Diamonds]],
               tableCards := [Loose (mk Queen Hearts),
                 Build \<lparr>buildId = ''build-2'', cards = [mk R5 Hearts, mk R3 Spades], value = 8,
                        owner = 0, isExtendable = True\<rparr>]\<rparr>))
   \<and> findPossibleBuildsFromStack exampleHelpers fourOnFour [mk R8 Clubs, mk R4 Clubs]
        (tableCards (finalizeState fourOnFour [mk R8 Clubs, mk R4 Clubs])) 0 = [8, 4]
   \<and> handleFinalizeStagingStack exampleHelpers (finalizeState fourOnFour [mk R8 Clubs, mk R4 Clubs])
        fourOnFour ''build-2''
      = Inr (Options [8, 4] fourOnFour (Some (tagged FromHand (mk R4 Hearts))))
   \<and> findPossibleBuildsFromStack exampleHelpers fiveOnThree [mk R7 Clubs]
        (tableCards (finalizeState fiveOnThree [mk R7 Clubs])) 0 = []
   \<and> handleFinalizeStagingStack exampleHelpers (finalizeState fiveOnThree [mk R7 Clubs])
        fiveOnThree ''build-2'' = Inr NoValidBuild"
proof -
  have cp: "currentPlayer (finalizeState st hand) = 0" for st hand
    by (simp add: finalizeState_def emptyState_def)
  have at: "at (playerHands (finalizeState st hand)) (currentPlayer (finalizeState st hand)) = Some hand"
    for st hand
    by (simp add: finalizeState_def emptyState_def at_def)
  have one: "findPossibleBuildsFromStack exampleHelpers fiveOnThree [mk R8 Clubs, mk R2 Clubs]
        (tableCards (finalizeState fiveOnThree [mk R8 Clubs, mk R2 Clubs])) 0 = [8]"
    by (simp add: findPossibleBuildsFromStack_def finalizeState_def emptyState_def hasActiveBuild_def
        fiveOnThree_def tagged_def mk_def exampleHelpers_def pipValue_def uniqueValues_def
        partitionsInto_def stripSource_def)
  have two: "findPossibleBuildsFromStack exampleHelpers fourOnFour [mk R8 Clubs, mk R4 Clubs]
        (tableCards (finalizeState fourOnFour [mk R8 Clubs, mk R4 Clubs])) 0 = [8, 4]"
    by (simp add: findPossibleBuildsFromStack_def finalizeState_def emptyState_def hasActiveBuild_def
        fourOnFour_def tagged_def mk_def exampleHelpers_def pipValue_def uniqueValues_def
        partitionsInto_def stripSource_def)
  have none: "findPossibleBuildsFromStack exampleHelpers fiveOnThree [mk R7 Clubs]
        (tableCards (finalizeState fiveOnThree [mk R7 Clubs])) 0 = []"
    by (simp add: findPossibleBuildsFromStack_def finalizeState_def emptyState_def hasActiveBuild_def
        fiveOnThree_def tagged_def mk_def exampleHelpers_def pipValue_def uniqueValues_def
        partitionsInto_def stripSource_def)
  have r1: "handleFinalizeStagingStack exampleHelpers (finalizeState fiveOnThree [mk R8 Clubs, mk R2 Clubs])
        fiveOnThree ''build-2''
      = Inr (NewState (emptyState\<lparr>currentPlayer := 1,
               playerHands := [[mk R8 Clubs, mk R2 Clubs], [mk R9 Diamonds]],
               tableCards := [Loose (mk Queen Hearts),
                 Build \<lparr>buildId = ''build-2'', cards = [mk R5 Hearts, mk R3 Spades], value = 8,
                        owner = 0, isExtendable = True\<rparr>]\<rparr>))"
    using finalize_outcomes [OF at, where h = exampleHelpers and st = fiveOnThree and v = 8
        and newId = "''build-2''"] one
    by (simp add: cp) (simp add: finalizeState_def emptyState_def fiveOnThree_def tagged_def
        stripSource_def mk_def)
  have r2: "handleFinalizeStagingStack exampleHelpers (finalizeState fourOnFour [mk R8 Clubs, mk R4 Clubs])
        fourOnFour ''build-2''
      = Inr (Options [8, 4] fourOnFour (Some (tagged FromHand (mk R4 Hearts))))"
    using finalize_outcomes [OF at, where h = exampleHelpers and st = fourOnFour
        and newId = "''build-2''"] two
    by (simp add: cp) (simp add: fourOnFour_def tagged_def mk_def)
  have r3: "handleFinalizeStagingStack exampleHelpers (finalizeState fiveOnThree [mk R7 Clubs])
        fiveOnThree ''build-2'' = Inr NoValidBuild"
    using finalize_outcomes [OF at, where h = exampleHelpers and st = fiveOnThree
        and newId = "''build-2''"] none
    by (simp add: cp)
  show ?thesis using at [of fiveOnThree "[mk R8 Clubs, mk R2 Clubs]"] one two none r1 r2 r3
    by (simp add: cp)
qed

subsection \<open>Capturability\<close>

lemma set_uniqueValues: "set (uniqueValues xs) = set xs"
  by (simp add: uniqueValues_def)

lemma possible_build_in_hand:
  assumes "V \<in> set (findPossibleBuildsFromStack h st hand table p)"
  shows "\<exists>hc. filter (\<lambda>c. source c = Some FromHand) (temporaryStack.cards st) = [hc]
           \<and> list_ex (\<lambda>c. rankValue h (rank c) = V \<and> \<not> sameCard c hc) hand"
proof -
  from assms have nb: "\<not> hasActiveBuild table p"
    by (auto simp: findPossibleBuildsFromStack_def)
  have "\<exists>hc. filter (\<lambda>c. source c = Some FromHand) (temporaryStack.cards st) = [hc]"
  proof (cases "filter (\<lambda>c. source c = Some FromHand) (temporaryStack.cards st)")
    case Nil
    with assms nb show ?thesis by (simp add: findPossibleBuildsFromStack_def)
  next
    case (Cons a l)
    with assms nb show ?thesis by (cases l) (simp_all add: findPossibleBuildsFromStack_def)
  qed
  then obtain hc where hc: "filter (\<lambda>c. source c = Some FromHand) (temporaryStack.cards st) = [hc]"
    by blast
  let ?rem = "filter (\<lambda>c. rank c \<noteq> rank hc \<or> suit c \<noteq> suit hc) hand"
  from assms nb hc have "V \<in> set (uniqueValues (map (\<lambda>c. rankValue h (rank c)) ?rem))"
    by (auto simp: findPossibleBuildsFromStack_def Let_def split: if_splits)
  then have "V \<in> (\<lambda>c. rankValue h (rank c)) ` set ?rem"
    by (simp add: set_uniqueValues)
  then obtain c where "c \<in> set hand" "rank c \<noteq> rank hc \<or> suit c \<noteq> suit hc" "rankValue h (rank c) = V"
    by auto
  then have "list_ex (\<lambda>c. rankValue h (rank c) = V \<and> \<not> sameCard c hc) hand"
    unfolding list_ex_iff sameCard_def by blast
  with hc show ?thesis by blast
qed

lemma handleAddToOpponentBuild_result:
  "handleAddToOpponentBuild h s item b newId = s
   \<or> (\<exists>nb. last (tableCards (handleAddToOpponentBuild h s item b newId)) = Build nb
         \<and> value nb = value b + rankValue h (rank (draggedCard item))
         \<and> build.owner nb = currentPlayer s)"
  by (auto simp: handleAddToOpponentBuild_def Let_def nextPlayer_def split: option.splits)

lemma handleCreateBuildWithValue_result:
  "\<exists>nb. last (tableCards (handleCreateBuildWithValue s st V newId)) = Build nb
      \<and> value nb = V \<and> build.owner nb = currentPlayer s"
  by (simp add: handleCreateBuildWithValue_def Let_def nextPlayer_def)





subsection \<open>Turn advancement\<close>

lemma captureAsReinforce_player:
  assumes "captureAsReinforce h s item sel opp newId = Some s'"
    and "removeCardFromHand (playerHands s) (currentPlayer s) (draggedCard item) = Some (hands', c')"
  shows "currentPlayer s' = (currentPlayer s + 1) mod 2"
  using assms
  by (auto simp: captureAsReinforce_def Let_def nextPlayer_def split: option.splits if_splits)

lemma captureProper_player:
  assumes "captureProper h s item sel opp = Inr s'"
    and "removeCardFromHand (playerHands s) (currentPlayer s) (draggedCard item) = Some (hands', c')"
  shows "currentPlayer s' = (currentPlayer s + 1) mod 2"
  using assms
  by (auto simp: captureProper_def Let_def nextPlayer_def split: option.splits if_splits)

lemma captureProper_returns:
  assumes "currentPlayer s \<le> 1" "length (playerCaptures s) = 2"
  shows "\<exists>s'. captureProper h s item sel opp = Inr s'"
proof -
  have l: "currentPlayer s < length (playerCaptures s)" "1 - currentPlayer s < length (playerCaptures s)"
    using assms by arith+
  show ?thesis
    using assms(1) l
    by (auto simp: captureProper_def Let_def at_def setAt_def split: option.splits)
qed


lemma flip_player: "p \<le> 1 \<Longrightarrow> Suc p mod 2 = Suc 0 - p"
  by arith




subsection \<open>Single active build\<close>

text \<open>The validators of a direct build and of extending an opponent's build reject, and
  finalizing offers no value, when the player owns a build.\<close>

lemma single_build_gates:
  assumes "hasActiveBuild table p"
  shows "\<not> valid (validateBuild h hand pc V table p)"
    and "\<not> valid (validateAddToOpponentBuild h b pc hand table p)"
    and "findPossibleBuildsFromStack h st hand table p = []"
  using assms
  by (simp_all add: validateBuild_def validateAddToOpponentBuild_def findPossibleBuildsFromStack_def
      reject_def)

text \<open>
  C4 fails on the action \<^verbatim>\<open>createBuildFromStack\<close>. Player 0 owns the build of 6
  and drops the 2 of hearts on the own stack of 4 and 3: \<open>validateTemporaryStackBuild\<close>,
  which has no check for an active build, allows a build of 9, and
  \<open>handleCreateBuildFromStack\<close> creates it. Player 0 then owns two builds.
\<close>

theorem second_build_from_stack:
  "hasActiveBuild (tableCards buildOwnerState) (currentPlayer buildOwnerState)
   \<and> validateTemporaryStackBuild exampleHelpers fourOnThree (mk R2 Hearts)
        [mk R2 Hearts, mk R9 Diamonds] (tableCards buildOwnerState) 0
       = \<lparr>valid = True, message = None, newValue = Some 9\<rparr>
   \<and> handleCreateBuildFromStack exampleHelpers buildOwnerState
        \<lparr>draggedCard = mk R2 Hearts, draggedSource = FromHand\<rparr> fourOnThree ''build-9''
       = emptyState\<lparr>currentPlayer := 1,
           playerHands := [[mk R9 Diamonds], [mk King Clubs]],
           tableCards := [Build sixBuild,
             Build \<lparr>buildId = ''build-9'',
                    cards = [tagged FromHand (mk R4 Clubs), tagged FromTable (mk R3 Spades), mk R2 Hearts],
                    value = 9, owner = 0, isExtendable = True\<rparr>]\<rparr>
   \<and> length (filter (buildOwnedBy 0)
        (tableCards (handleCreateBuildFromStack exampleHelpers buildOwnerState
           \<lparr>draggedCard = mk R2 Hearts, draggedSource = FromHand\<rparr> fourOnThree ''build-9''))) = 2"
  by (simp add: buildOwnerState_def emptyState_def sixBuild_def fourOnThree_def hasActiveBuild_def
      validateTemporaryStackBuild_def calculateCardSum_def exampleHelpers_def pipValue_def
      tagged_def mk_def accept_def handleCreateBuildFromStack_def removeCardFromHand_def at_def
      sameCard_def removeCardsFromTable_def nextPlayer_def Let_def)

theorem second_build_from_stack_witness:
  "hasActiveBuild (tableCards buildOwnerState) (currentPlayer buildOwnerState)
   \<and> valid (validateTemporaryStackBuild exampleHelpers fourOnThree (mk R2 Hearts)
        [mk R2 Hearts, mk R9 Diamonds] (tableCards buildOwnerState) 0)
   \<and> length (filter (buildOwnedBy 0)
        (tableCards (handleCreateBuildFromStack exampleHelpers buildOwnerState
           \<lparr>draggedCard = mk R2 Hearts, draggedSource = FromHand\<rparr> fourOnThree ''build-9''))) = 2"
proof -
  from second_build_from_stack
  have a: "hasActiveBuild (tableCards buildOwnerState) (currentPlayer buildOwnerState)"
    and b: "validateTemporaryStackBuild exampleHelpers fourOnThree (mk R2 Hearts)
        [mk R2 Hearts, mk R9 Diamonds] (tableCards buildOwnerState) 0
       = \<lparr>valid = True, message = None, newValue = Some 9\<rparr>"
    and c: "length (filter (buildOwnedBy 0)
        (tableCards (handleCreateBuildFromStack exampleHelpers buildOwnerState
           \<lparr>draggedCard = mk R2 Hearts, draggedSource = FromHand\<rparr> fourOnThree ''build-9''))) = 2"
    by blast+
  from b have "valid (validateTemporaryStackBuild exampleHelpers fourOnThree (mk R2 Hearts)
        [mk R2 Hearts, mk R9 Diamonds] (tableCards buildOwnerState) 0)"
    by simp
  with a c show ?thesis by blast
qed

subsection \<open>Conservation of cards\<close>

lemma keys_simps [simp]:
  "keys [] = {#}" "keys (c # cs) = add_mset (cardKey c) (keys cs)"
  "keys (xs @ ys) = keys xs + keys ys"
  by (simp_all add: keys_def)

lemma keys_stripSource [simp]: "keys (map stripSource cs) = keys cs"
  by (induction cs) (simp_all add: stripSource_def cardKey_def)

lemma cardKey_tagged [simp]: "cardKey (tagged src c) = cardKey c"
  by (simp add: tagged_def cardKey_def)

lemma cardKey_stripSource [simp]: "cardKey (stripSource c) = cardKey c"
  by (simp add: stripSource_def cardKey_def)

lemma sameCard_key: "sameCard a b \<longleftrightarrow> cardKey a = cardKey b"
  by (auto simp: sameCard_def cardKey_def)

lemma keys_filter_split: "keys (filter P cs) + keys (filter (\<lambda>c. \<not> P c) cs) = keys cs"
  by (induction cs) simp_all

lemma tableKeys_simps [simp]:
  "tableKeys [] = {#}" "tableKeys (e # es) = keys (entityCards e) + tableKeys es"
  "tableKeys (xs @ ys) = tableKeys xs + tableKeys ys"
  by (simp_all add: tableKeys_def)

lemma tableKeys_map_Loose [simp]: "tableKeys (map Loose cs) = keys cs"
  by (induction cs) simp_all

lemma tableKeys_filter_split:
  "tableKeys (filter P es) + tableKeys (filter (\<lambda>e. \<not> P e) es) = tableKeys es"
  by (induction es) (simp_all add: ac_simps)

lemma tableKeys_mset: "mset xs = mset ys \<Longrightarrow> tableKeys xs = tableKeys ys"
proof -
  have "tableKeys zs = (\<Sum>e\<in>#mset zs. keys (entityCards e))" for zs
    by (induction zs) simp_all
  then show "mset xs = mset ys \<Longrightarrow> tableKeys xs = tableKeys ys" by simp
qed

lemma keys_concat_update:
  "i < length xs \<Longrightarrow> keys (concat (xs[i := v])) + keys (xs ! i) = keys (concat xs) + keys v"
proof (induction xs arbitrary: i)
  case Nil
  then show ?case by simp
next
  case (Cons x xs)
  show ?case
  proof (cases i)
    case 0
    then show ?thesis by simp
  next
    case (Suc j)
    with Cons.prems have "j < length xs" by simp
    from Cons.IH [OF this] Suc show ?thesis by (simp add: ac_simps)
  qed
qed

lemma tableKeys_update:
  "i < length es \<Longrightarrow> tableKeys (es[i := e]) + keys (entityCards (es ! i)) = tableKeys es + keys (entityCards e)"
proof (induction es arbitrary: i)
  case Nil
  then show ?case by simp
next
  case (Cons x xs)
  show ?case
  proof (cases i)
    case 0
    then show ?thesis by simp
  next
    case (Suc j)
    with Cons.prems have "j < length xs" by simp
    from Cons.IH [OF this] Suc show ?thesis by (simp add: ac_simps)
  qed
qed

lemma captures_update:
  "i < length pcs \<Longrightarrow>
   keys (concat (concat (pcs[i := gs]))) + keys (concat (pcs ! i)) = keys (concat (concat pcs)) + keys (concat gs)"
proof (induction pcs arbitrary: i)
  case Nil
  then show ?case by simp
next
  case (Cons x xs)
  show ?case
  proof (cases i)
    case 0
    then show ?thesis by simp
  next
    case (Suc j)
    with Cons.prems have "j < length xs" by simp
    from Cons.IH [OF this] Suc show ?thesis by (simp add: ac_simps)
  qed
qed

lemma find_removeFirst:
  "find P xs = Some x \<Longrightarrow> keys (removeFirst P xs) + {#cardKey x#} = keys xs \<and> P x"
  by (induction xs) (auto split: if_splits)

lemma removeCardFromHand_keys:
  assumes "removeCardFromHand hands p c = Some (hands', c')"
  shows "keys (concat hands') + {#cardKey c#} = keys (concat hands)" and "cardKey c' = cardKey c"
proof -
  from assms obtain hand where p: "p < length hands" and hand: "hand = hands ! p"
    and f: "find (sameCard c) hand = Some c'" and h': "hands' = hands[p := removeFirst (sameCard c) hand]"
    by (auto simp: removeCardFromHand_def at_def split: if_splits option.splits)
  from find_removeFirst [OF f] have k: "keys (removeFirst (sameCard c) hand) + {#cardKey c'#} = keys hand"
    and sc: "sameCard c c'" by simp_all
  from sc show ck: "cardKey c' = cardKey c" by (simp add: sameCard_key)
  have e: "keys (concat hands') + keys hand
      = keys (concat hands) + keys (removeFirst (sameCard c) hand)"
    using keys_concat_update [OF p, of "removeFirst (sameCard c) hand"] hand h' by simp
  have "keys (concat hands') + (keys (removeFirst (sameCard c) hand) + {#cardKey c'#})
      = keys (concat hands) + keys (removeFirst (sameCard c) hand)"
    using e by (simp only: k)
  then show "keys (concat hands') + {#cardKey c#} = keys (concat hands)"
    by (simp add: ck)
qed

lemma findIndex_Some:
  "findIndex P xs = Some i \<Longrightarrow> i < length xs \<and> P (xs ! i)"
  by (induction xs arbitrary: i) (auto split: if_splits)


lemma allCards_nextPlayer [simp]: "allCards (nextPlayer s) = allCards s"
  by (simp add: allCards_def nextPlayer_def)

lemma present_removed:
  assumes "presentOnTable items es"
  shows "tableKeys (removeCardsFromTable es items) + tableKeys items = tableKeys es"
proof -
  let ?P = "\<lambda>item. list_ex (matchesItem item) items"
  have "tableKeys (filter ?P es) = tableKeys items"
    using assms by (intro tableKeys_mset) (simp add: presentOnTable_def)
  with tableKeys_filter_split [of ?P es] show ?thesis
    by (simp add: removeCardsFromTable_def ac_simps)
qed

lemma notStack_matches: "notStack (stackId st) e \<longleftrightarrow> \<not> list_ex (matchesItem e) [TemporaryStack st]"
  by (cases e) simp_all

lemma filter_notStack: "filter (notStack (stackId st)) es = removeCardsFromTable es [TemporaryStack st]"
  unfolding removeCardsFromTable_def by (rule filter_cong) (simp_all add: notStack_matches)

lemma hasStackId_matches: "hasStackId (stackId st) e \<longleftrightarrow> list_ex (matchesItem e) [TemporaryStack st]"
  by (cases e) simp_all

lemma present_stack_at:
  assumes "presentOnTable [TemporaryStack st] es" "i < length es" "hasStackId (stackId st) (es ! i)"
  shows "es ! i = TemporaryStack st"
proof -
  let ?P = "\<lambda>item. list_ex (matchesItem item) [TemporaryStack st]"
  from assms(1) have "mset (filter ?P es) = {#TemporaryStack st#}"
    by (simp add: presentOnTable_def)
  then have "set (filter ?P es) = {TemporaryStack st}"
    by (metis set_mset_mset set_mset_single)
  moreover from assms(2,3) have "es ! i \<in> set (filter ?P es)"
    by (simp add: hasStackId_matches)
  ultimately show ?thesis by simp
qed

lemma handleTrail_conserves: "allCards (handleTrail s c) = allCards s"
proof (cases "removeCardFromHand (playerHands s) (currentPlayer s) c")
  case None
  then show ?thesis by (simp add: handleTrail_def)
next
  case (Some r)
  then obtain h' c' where r: "removeCardFromHand (playerHands s) (currentPlayer s) c = Some (h', c')"
    by (cases r) simp
  from removeCardFromHand_keys [OF r] show ?thesis
    by (simp add: handleTrail_def r allCards_def nextPlayer_def)
qed

lemma handleStageSingle_conserves: "allCards (handleStageSingleCardFromHand s c newId) = allCards s"
proof (cases "removeCardFromHand (playerHands s) (currentPlayer s) c")
  case None
  then show ?thesis by (simp add: handleStageSingleCardFromHand_def)
next
  case (Some r)
  then obtain h' c' where r: "removeCardFromHand (playerHands s) (currentPlayer s) c = Some (h', c')"
    by (cases r) simp
  from removeCardFromHand_keys [OF r] show ?thesis
    by (simp add: handleStageSingleCardFromHand_def r allCards_def)
qed

lemma looseLike_key: "looseLike c e \<Longrightarrow> keys (entityCards e) = {#cardKey c#}"
  by (cases e) (simp_all add: cardKey_def)

lemma handleCreateStagingStack_conserves:
  "allCards (handleCreateStagingStack h s hc tc newId) = allCards s"
proof (cases "list_ex (stackOwnedBy (currentPlayer s)) (tableCards s)")
  case True
  then show ?thesis by (simp add: handleCreateStagingStack_def)
next
  case no: False
  show ?thesis
  proof (cases "findIndex (looseLike tc) (tableCards s)")
    case None
    with no show ?thesis by (simp add: handleCreateStagingStack_def)
  next
    case (Some i)
    from findIndex_Some [OF Some] have i: "i < length (tableCards s)"
      and l: "looseLike tc (tableCards s ! i)" by simp_all
    show ?thesis
    proof (cases "removeCardFromHand (playerHands s) (currentPlayer s) hc")
      case None
      with no Some show ?thesis by (simp add: handleCreateStagingStack_def Let_def)
    next
      case (Some r)
      then obtain h' c' where r: "removeCardFromHand (playerHands s) (currentPlayer s) hc = Some (h', c')"
        by (cases r) simp
      let ?st = "\<lambda>cs. TemporaryStack \<lparr>stackId = newId, cards = cs, owner = currentPlayer s\<rparr>"
      have t: "tableKeys ((tableCards s)[i := ?st cs]) + {#cardKey tc#} = tableKeys (tableCards s) + keys cs"
        for cs
        using tableKeys_update [OF i, of "?st cs"] looseLike_key [OF l] by simp
      from removeCardFromHand_keys(1) [OF r]
      have hk: "keys (concat (playerHands s)) = keys (concat h') + {#cardKey hc#}" by simp
      have "tableKeys ((tableCards s)[i := ?st cs]) = tableKeys (tableCards s) + {#cardKey hc#}"
        if "keys cs = {#cardKey tc, cardKey hc#}" for cs
        using t [of cs] that by simp
      then show ?thesis
        using no \<open>findIndex (looseLike tc) (tableCards s) = Some i\<close> r hk
        by (simp add: handleCreateStagingStack_def Let_def allCards_def)
    qed
  qed
qed


lemma handleAddToStagingStack_conserves:
  assumes "presentOnTable [TemporaryStack st] (tableCards s)"
    and "handleAddToStagingStack s hc st = Inr s'"
  shows "allCards s' = allCards s"
proof (cases "removeCardFromHand (playerHands s) (currentPlayer s) hc")
  case None
  with assms(2) show ?thesis by (simp add: handleAddToStagingStack_def)
next
  case (Some r)
  then obtain h' c' where r: "removeCardFromHand (playerHands s) (currentPlayer s) hc = Some (h', c')"
    by (cases r) simp
  from assms(2) r obtain i where i: "findIndex (hasStackId (stackId st)) (tableCards s) = Some i"
    by (cases "findIndex (hasStackId (stackId st)) (tableCards s)")
       (simp_all add: handleAddToStagingStack_def Let_def)
  from findIndex_Some [OF i] have il: "i < length (tableCards s)"
    and "hasStackId (stackId st) (tableCards s ! i)" by simp_all
  with present_stack_at [OF assms(1)] have at: "tableCards s ! i = TemporaryStack st" by blast
  let ?new = "TemporaryStack (st\<lparr>temporaryStack.cards := temporaryStack.cards st @ [tagged FromHand hc]\<rparr>)"
  from tableKeys_update [OF il, of ?new] at
  have "tableKeys ((tableCards s)[i := ?new]) = tableKeys (tableCards s) + {#cardKey hc#}"
    by simp
  moreover from removeCardFromHand_keys(1) [OF r]
  have "keys (concat (playerHands s)) = keys (concat h') + {#cardKey hc#}" by simp
  moreover from assms(2) r i have "s' = s\<lparr>playerHands := h', tableCards := (tableCards s)[i := ?new]\<rparr>"
    by (simp add: handleAddToStagingStack_def Let_def)
  ultimately show ?thesis by (simp add: allCards_def)
qed

lemma stack_cards_split:
  "keys (handCardsOf st) + keys (opponentCardsOf st) + keys (looseCardsOf st) = keys (temporaryStack.cards st)"
proof -
  have "keys (filter (\<lambda>c. source c = Some FromHand) cs)
      + keys (filter (\<lambda>c. source c = Some FromOpponentCapture) cs)
      + keys (filter (\<lambda>c. source c \<noteq> Some FromHand \<and> source c \<noteq> Some FromOpponentCapture) cs)
      = keys cs" for cs
    by (induction cs) auto
  then show ?thesis by (simp add: handCardsOf_def opponentCardsOf_def looseCardsOf_def)
qed

lemma returnToCaptures_keys:
  "keys (concat (returnToCaptures caps back)) = keys (concat caps) + keys back"
proof (cases "caps = []")
  case True
  then show ?thesis by (simp add: returnToCaptures_def)
next
  case False
  then have "concat caps = concat (butlast caps) @ last caps"
    by (induction caps rule: rev_induct) simp_all
  then have "keys (concat caps) = keys (concat (butlast caps)) + keys (last caps)"
    by simp
  with False show ?thesis by (simp add: returnToCaptures_def)
qed

lemma restoreOpponentCaptures_keys:
  assumes "currentPlayer s \<le> 1" "length (playerCaptures s) = 2"
  shows "keys (concat (concat (restoreOpponentCaptures s back)))
       = keys (concat (concat (playerCaptures s))) + keys back"
proof (cases "back = []")
  case True
  then show ?thesis by (simp add: restoreOpponentCaptures_def)
next
  case False
  have l: "1 - currentPlayer s < length (playerCaptures s)" using assms by arith
  from False l assms(1) have "restoreOpponentCaptures s back =
      (playerCaptures s)[1 - currentPlayer s := returnToCaptures (playerCaptures s ! (1 - currentPlayer s)) back]"
    by (simp add: restoreOpponentCaptures_def at_def setAt_def Let_def)
  with captures_update [OF l, of "returnToCaptures (playerCaptures s ! (1 - currentPlayer s)) back"]
  show ?thesis by (simp add: returnToCaptures_keys)
qed

lemma cancel_conserves:
  assumes "currentPlayer s \<le> 1" "length (playerHands s) = 2" "length (playerCaptures s) = 2"
    and "presentOnTable [TemporaryStack st] (tableCards s)"
  shows "\<exists>s'. handleCancelStagingStack s st = Inr s' \<and> allCards s' = allCards s
     \<and> handleDisbandStagingStack s st = Inr (nextPlayer s')"
proof -
  let ?cp = "currentPlayer s"
  have cpl: "?cp < length (playerHands s)" using assms by simp
  let ?s' = "s\<lparr>playerHands := (playerHands s)[?cp := playerHands s ! ?cp @ handCardsOf st],
                tableCards := filter (notStack (stackId st)) (tableCards s) @ map Loose (looseCardsOf st),
                playerCaptures := restoreOpponentCaptures s (opponentCardsOf st)\<rparr>"
  have cancel: "handleCancelStagingStack s st = Inr ?s'"
    by (simp add: handleCancelStagingStack_def at_def cpl Let_def)
  have disband: "handleDisbandStagingStack s st = Inr (nextPlayer ?s')"
    by (simp add: handleDisbandStagingStack_def at_def cpl Let_def)
  have h: "keys (concat ((playerHands s)[?cp := playerHands s ! ?cp @ handCardsOf st]))
      = keys (concat (playerHands s)) + keys (handCardsOf st)"
    using keys_concat_update [OF cpl, of "playerHands s ! ?cp @ handCardsOf st"] by simp
  have t: "tableKeys (filter (notStack (stackId st)) (tableCards s)) + keys (temporaryStack.cards st)
      = tableKeys (tableCards s)"
    using present_removed [OF assms(4)] by (simp add: filter_notStack)
  have c: "keys (concat (concat (restoreOpponentCaptures s (opponentCardsOf st))))
      = keys (concat (concat (playerCaptures s))) + keys (opponentCardsOf st)"
    by (rule restoreOpponentCaptures_keys [OF assms(1,3)])
  have "allCards ?s' = allCards s"
    unfolding allCards_def
    by (simp add: h c t [symmetric] stack_cards_split [of st, symmetric] ac_simps)
  with cancel disband show ?thesis by blast
qed

lemma finalize_conserves:
  assumes "presentOnTable [TemporaryStack st] (tableCards s)"
    and "handleFinalizeStagingStack h s st newId = Inr (NewState s')"
  shows "allCards s' = allCards s"
proof -
  have t: "tableKeys (filter (notStack (stackId st)) (tableCards s)) + keys (temporaryStack.cards st)
      = tableKeys (tableCards s)"
    using present_removed [OF assms(1)] by (simp add: filter_notStack)
  from assms(2) obtain v where "s' = nextPlayer (s\<lparr>tableCards :=
      filter (notStack (stackId st)) (tableCards s)
      @ [Build \<lparr>buildId = newId, cards = map stripSource (map stripSource (temporaryStack.cards st)),
                 value = v, owner = currentPlayer s, isExtendable = True\<rparr>]\<rparr>)"
    by (auto simp: handleFinalizeStagingStack_def Let_def split: option.splits if_splits)
  with t show ?thesis by (simp add: allCards_def nextPlayer_def stripSource_idem)
qed

lemma createBuildWithValue_conserves:
  assumes "presentOnTable [TemporaryStack st] (tableCards s)"
  shows "allCards (handleCreateBuildWithValue s st v newId) = allCards s"
  using present_removed [OF assms]
  by (simp add: handleCreateBuildWithValue_def Let_def allCards_def nextPlayer_def)

lemma merge_conserves:
  assumes "presentOnTable [Build b, TemporaryStack st] (tableCards s)"
  shows "allCards (handleMergeIntoOwnBuild s st b) = allCards s"
    and "allCards (handleReinforceOpponentBuildWithStack s st b) = allCards s"
    and "allCards (handleReinforceBuildWithStack s st b newId) = allCards s"
  using present_removed [OF assms]
  by (simp_all add: handleMergeIntoOwnBuild_def handleReinforceOpponentBuildWithStack_def
      handleReinforceBuildWithStack_def Let_def allCards_def nextPlayer_def ac_simps)

lemma dealLoop_keys:
  "dealLoop n h0 h1 d = (h0', h1', d') \<Longrightarrow> keys h0' + keys h1' + keys d' = keys h0 + keys h1 + keys d"
proof (induction n arbitrary: h0 h1 d)
  case 0
  then show ?case by simp
next
  case (Suc n)
  have bl: "keys (butlast xs) + {#cardKey (last xs)#} = keys xs" if "xs \<noteq> []" for xs
    using that by (induction xs rule: rev_induct) simp_all
  show ?case
  proof (cases "d = []")
    case True
    with Suc.prems have "dealLoop n h0 h1 [] = (h0', h1', d')" by simp
    from Suc.IH [OF this] True show ?thesis by simp
  next
    case d: False
    show ?thesis
    proof (cases "butlast d = []")
      case True
      with d Suc.prems have "dealLoop n (h0 @ [last d]) h1 [] = (h0', h1', d')" by simp
      from Suc.IH [OF this] bl [OF d] True show ?thesis by (simp add: ac_simps)
    next
      case False
      with d Suc.prems
      have "dealLoop n (h0 @ [last d]) (h1 @ [last (butlast d)]) (butlast (butlast d)) = (h0', h1', d')"
        by simp
      moreover have "keys d = keys (butlast (butlast d)) + {#cardKey (last (butlast d))#}
          + {#cardKey (last d)#}"
        using bl [OF d] bl [OF False] by simp
      ultimately show ?thesis using Suc.IH by (simp add: ac_simps)
    qed
  qed
qed

lemma startNextRound_conserves:
  assumes "startNextRound s = Inr s'" "length (playerHands s) = 2"
  shows "allCards s' = allCards s"
proof (cases "length (deck s) < 20")
  case True
  with assms show ?thesis by (simp add: startNextRound_def)
next
  case False
  from assms(2) obtain h0 h1 where hs: "playerHands s = [h0, h1]"
    by (cases "playerHands s"; cases "tl (playerHands s)") auto
  obtain h0' h1' d' where dl: "dealLoop 10 h0 h1 (deck s) = (h0', h1', d')"
    by (cases "dealLoop 10 h0 h1 (deck s)")
  with assms False hs have s': "s' = s\<lparr>deck := d', playerHands := [h0', h1'], round := 2\<rparr>"
    by (simp add: startNextRound_def del: dealLoop.simps)
  from dealLoop_keys [OF dl] hs s' show ?thesis
    by (simp add: allCards_def ac_simps)
qed


lemma sweptCards_append:
  "sweptCards (xs @ ys) = Some g \<longleftrightarrow>
     (\<exists>a b. sweptCards xs = Some a \<and> sweptCards ys = Some b \<and> g = a @ b)"
  by (induction xs arbitrary: g rule: sweptCards.induct) auto

lemma sweptCards_Inl [simp]: "sweptCards (map Inl cs) = Some cs"
  by (induction cs) simp_all

lemma sweptCards_keys:
  "sweptCards (concat (map sweepItem es)) = Some g \<Longrightarrow> keys g = tableKeys es"
proof (induction es arbitrary: g)
  case Nil
  then show ?case by simp
next
  case (Cons e es)
  show ?case
  proof (cases e)
    case (Loose c)
    with Cons.prems obtain g' where "sweptCards (concat (map sweepItem es)) = Some g'" "g = c # g'"
      by auto
    with Cons.IH Loose show ?thesis by simp
  next
    case (Build b)
    with Cons.prems obtain g' where "sweptCards (concat (map sweepItem es)) = Some g'"
      "g = build.cards b @ g'"
      by (auto simp: sweptCards_append)
    with Cons.IH Build show ?thesis by simp
  next
    case (TemporaryStack st)
    with Cons.prems show ?thesis by simp
  qed
qed

lemma sweptCards_no_stack:
  "\<not> list_ex isTemporaryStack es \<Longrightarrow> \<exists>g. sweptCards (concat (map sweepItem es)) = Some g"
proof (induction es)
  case Nil
  then show ?case by simp
next
  case (Cons e es)
  then obtain g where "sweptCards (concat (map sweepItem es)) = Some g" by auto
  with Cons.prems show ?case by (cases e) (simp_all add: sweptCards_append)
qed

lemma handleSweep_conserves:
  assumes "handleSweep s = Inr (Swept s')"
  shows "allCards s' = allCards s"
proof (cases "lastCapturer s")
  case None
  with assms show ?thesis by (simp add: handleSweep_def)
next
  case (Some lc)
  show ?thesis
  proof (cases "tableCards s = []")
    case True
    with assms Some show ?thesis by (simp add: handleSweep_def)
  next
    case False
    with assms Some obtain mine g where lc: "lc < length (playerCaptures s)"
      and mine: "mine = playerCaptures s ! lc"
      and g: "sweptCards (concat (map sweepItem (tableCards s))) = Some g"
      and s': "s' = s\<lparr>tableCards := [], playerCaptures := (playerCaptures s)[lc := mine @ [g]]\<rparr>"
      by (auto simp: handleSweep_def Let_def at_def split: option.splits if_splits)
    from captures_update [OF lc, of "mine @ [g]"] mine
    have "keys (concat (concat ((playerCaptures s)[lc := mine @ [g]])))
        = keys (concat (concat (playerCaptures s))) + keys g"
      by simp
    with sweptCards_keys [OF g] s' show ?thesis by (simp add: allCards_def ac_simps)
  qed
qed

lemma handleSweep_returns:
  assumes "\<not> list_ex isTemporaryStack (tableCards s)"
    and "case lastCapturer s of None \<Rightarrow> True | Some lc \<Rightarrow> lc < length (playerCaptures s)"
  shows "\<exists>s'. handleSweep s = Inr (Swept s')"
  using assms sweptCards_no_stack [OF assms(1)]
  by (auto simp: handleSweep_def Let_def at_def split: option.splits)

lemma handleBuild_conserves:
  assumes "draggedSource item = FromHand"
    and "presentOnTable (map Loose tcs) (tableCards s)"
    and "keys (sortCardsByRank h tcs) = keys tcs"
    and "case (big, small) of (Some b1, Some b2) \<Rightarrow> keys [b1, b2] = keys (draggedCard item # tcs)
         | _ \<Rightarrow> True"
    and "handleBuild h s item tcs v big small newId = Inr s'"
  shows "allCards s' = allCards s"
proof (cases "s' = s")
  case True
  then show ?thesis by simp
next
  case False
  let ?pc = "draggedCard item"
  from assms(5) False assms(1) obtain hand h' c' where
    r: "removeCardFromHand (playerHands s) (currentPlayer s) ?pc = Some (h', c')"
    and s': "s' = nextPlayer (s\<lparr>playerHands := h',
        tableCards := removeCardsFromTable (tableCards s) (map Loose tcs)
          @ [Build \<lparr>buildId = newId,
                cards = (case (big, small) of (Some b1, Some b2) \<Rightarrow> [b1, b2]
                         | _ \<Rightarrow> sortCardsByRank h tcs @ [?pc]),
                value = v, owner = currentPlayer s, isExtendable = True\<rparr>],
        playerCaptures := playerCaptures s\<rparr>)"
    by (auto simp: handleBuild_def Let_def split: option.splits if_splits)
  have bc: "keys (case (big, small) of (Some b1, Some b2) \<Rightarrow> [b1, b2]
                         | _ \<Rightarrow> sortCardsByRank h tcs @ [?pc]) = keys tcs + {#cardKey ?pc#}"
    using assms(3,4) by (auto split: option.splits)
  from present_removed [OF assms(2)]
  have t: "tableKeys (tableCards s) = tableKeys (removeCardsFromTable (tableCards s) (map Loose tcs)) + keys tcs"
    by simp
  from removeCardFromHand_keys(1) [OF r]
  have hk: "keys (concat (playerHands s)) = keys (concat h') + {#cardKey ?pc#}" by simp
  show ?thesis
    unfolding s' allCards_nextPlayer
    by (simp add: allCards_def bc [simplified] t hk)
qed


lemma matches_Build: "matchesItem item (Build b) \<longleftrightarrow> (\<exists>b'. item = Build b' \<and> buildId b' = buildId b)"
  by (cases item) auto

lemma buildIds_member: "Build b \<in> set es \<Longrightarrow> buildId b \<in> set (buildIds es)"
  by (induction es) (auto simp: buildIds_def)

lemma buildIds_Cons:
  "buildIds (e # es) = (case e of Build b \<Rightarrow> [buildId b] | _ \<Rightarrow> []) @ buildIds es"
  by (simp add: buildIds_def)

lemma unique_build_filter:
  "distinct (buildIds es) \<Longrightarrow> Build b \<in> set es \<Longrightarrow>
   filter (\<lambda>item. matchesItem item (Build b)) es = [Build b]"
proof (induction es)
  case Nil
  then show ?case by simp
next
  case (Cons e es)
  show ?case
  proof (cases "matchesItem e (Build b)")
    case True
    then obtain b' where e: "e = Build b'" and id: "buildId b' = buildId b"
      by (auto simp: matches_Build)
    from Cons.prems(1) e id have nin: "buildId b \<notin> set (buildIds es)"
      by (simp add: buildIds_Cons)
    then have "Build b \<notin> set es" using buildIds_member by blast
    with Cons.prems(2) have eb: "e = Build b" by simp
    have "filter (\<lambda>item. matchesItem item (Build b)) es = []"
    proof (rule ccontr)
      assume "filter (\<lambda>item. matchesItem item (Build b)) es \<noteq> []"
      then obtain x where "x \<in> set es" "matchesItem x (Build b)"
        by (metis filter_False)
      then obtain b'' where "Build b'' \<in> set es" "buildId b'' = buildId b"
        by (auto simp: matches_Build)
      with buildIds_member [of b'' es] nin show False by simp
    qed
    with True eb show ?thesis by simp
  next
    case False
    then have "e \<noteq> Build b" by (auto simp: matches_Build)
    with Cons.prems(2) have "Build b \<in> set es" by simp
    moreover from Cons.prems(1) have "distinct (buildIds es)" by (simp add: buildIds_Cons)
    ultimately show ?thesis using Cons.IH False by simp
  qed
qed

lemma findOwnBuild_member: "findOwnBuild p es = Some b \<Longrightarrow> Build b \<in> set es"
  by (induction p es rule: findOwnBuild.induct) (auto split: if_splits)

lemma mset_filter_disj:
  "(\<And>x. x \<in> set xs \<Longrightarrow> \<not> (P x \<and> Q x)) \<Longrightarrow>
   mset (filter (\<lambda>x. P x \<or> Q x) xs) = mset (filter P xs) + mset (filter Q xs)"
  by (induction xs) auto

lemma matches_same_kind: "matchesItem x y \<Longrightarrow> isBuild x = isBuild y"
  by (cases x; cases y) simp_all

lemma present_with_own_build:
  assumes "distinct (buildIds es)" "findOwnBuild p es = Some own"
    and "presentOnTable sel es" "\<not> list_ex isBuild sel"
  shows "presentOnTable (Build own # sel) es"
proof -
  let ?P = "\<lambda>item. matchesItem item (Build own)"
  let ?Q = "\<lambda>item. list_ex (matchesItem item) sel"
  have disj: "\<not> (?P x \<and> ?Q x)" for x
  proof
    assume a: "?P x \<and> ?Q x"
    then have "isBuild x" by (auto simp: matches_Build)
    moreover from a obtain y where "y \<in> set sel" "matchesItem x y" by (auto simp: list_ex_iff)
    ultimately have "isBuild y" "y \<in> set sel" using matches_same_kind by auto
    with assms(4) show False by (auto simp: list_ex_iff)
  qed
  have "mset (filter (\<lambda>x. ?P x \<or> ?Q x) es) = mset (filter ?P es) + mset (filter ?Q es)"
    by (rule mset_filter_disj) (use disj in blast)
  also have "filter ?P es = [Build own]"
    by (rule unique_build_filter [OF assms(1) findOwnBuild_member [OF assms(2)]])
  also have "mset (filter ?Q es) = mset sel"
    using assms(3) by (simp add: presentOnTable_def)
  finally show ?thesis by (simp add: presentOnTable_def)
qed

lemma captureAsReinforce_conserves:
  assumes "distinct (buildIds (tableCards s))" "presentOnTable sel (tableCards s)"
    and "captureAsReinforce h s item sel opp newId = Some s'"
  shows "allCards s' = allCards s"
proof (cases "s' = s")
  case True
  then show ?thesis by simp
next
  case False
  let ?c = "draggedCard item"
  from assms(3) False obtain own h' c' where own: "findOwnBuild (currentPlayer s) (tableCards s) = Some own"
    and nb: "\<not> list_ex isBuild sel"
    and r: "removeCardFromHand (playerHands s) (currentPlayer s) ?c = Some (h', c')"
    and s': "s' = nextPlayer (s\<lparr>playerHands := h',
        tableCards := removeCardsFromTable (tableCards s) (Build own # sel)
          @ [Build \<lparr>buildId = newId, cards = build.cards own @ ?c # concat (map entityCards sel),
                     value = value own, owner = currentPlayer s, isExtendable = False\<rparr>]\<rparr>)"
    by (auto simp: captureAsReinforce_def Let_def split: option.splits if_splits)
  from present_removed [OF present_with_own_build [OF assms(1) own assms(2) nb]]
  have t: "tableKeys (tableCards s) = tableKeys (removeCardsFromTable (tableCards s) (Build own # sel))
      + (keys (build.cards own) + tableKeys sel)"
    by simp
  from removeCardFromHand_keys(1) [OF r]
  have hk: "keys (concat (playerHands s)) = keys (concat h') + {#cardKey ?c#}" by simp
  show ?thesis
    unfolding s' allCards_nextPlayer
    by (simp add: allCards_def t hk tableKeys_def [of sel])
qed

lemma captureProper_conserves:
  assumes "draggedSource item = FromHand" "\<not> list_ex isTemporaryStack sel"
    and "presentOnTable sel (tableCards s)"
    and "\<And>c cs. keys (createCaptureStack h c cs None) = {#cardKey c#} + keys cs"
    and "captureProper h s item sel None = Inr s'"
  shows "allCards s' = allCards s"
proof (cases "s' = s")
  case True
  then show ?thesis by simp
next
  case False
  let ?c = "draggedCard item"
  from assms(5) False assms(1,2) obtain h' c' mine where
    r: "removeCardFromHand (playerHands s) (currentPlayer s) ?c = Some (h', c')"
    and cp: "currentPlayer s < length (playerCaptures s)" and mine: "mine = playerCaptures s ! currentPlayer s"
    and s': "s' = nextPlayer (s\<lparr>playerHands := h',
        tableCards := removeCardsFromTable (tableCards s) sel,
        playerCaptures := (playerCaptures s)[currentPlayer s :=
           mine @ [createCaptureStack h c' (concat (map entityCards sel)) None]],
        lastCapturer := Some (currentPlayer s)\<rparr>)"
    by (auto simp: captureProper_def Let_def at_def removeCardsFromTable_def
        split: option.splits if_splits)
  from present_removed [OF assms(3)]
  have t: "tableKeys (tableCards s) = tableKeys (removeCardsFromTable (tableCards s) sel) + tableKeys sel"
    by simp
  from removeCardFromHand_keys [OF r]
  have hk: "keys (concat (playerHands s)) = keys (concat h') + {#cardKey ?c#}"
    and ck: "cardKey c' = cardKey ?c" by simp_all
  from captures_update [OF cp, of "mine @ [createCaptureStack h c' (concat (map entityCards sel)) None]"] mine
  have c: "keys (concat (concat ((playerCaptures s)[currentPlayer s :=
           mine @ [createCaptureStack h c' (concat (map entityCards sel)) None]])))
      = keys (concat (concat (playerCaptures s))) + ({#cardKey ?c#} + tableKeys sel)"
    by (simp add: assms(4) ck tableKeys_def)
  show ?thesis
    unfolding s' allCards_nextPlayer
    by (simp add: allCards_def t hk c)
qed


lemma captureProper_finalizing_conserves:
  assumes "draggedSource item = FromHand" "list_ex isTemporaryStack sel"
    and "presentOnTable sel (tableCards s)"
    and "length (filter (\<lambda>c. source c = Some FromHand \<and> sameCard c (draggedCard item))
           (concat (map entityCards sel))) = 1"
    and "\<And>c cs. keys (createCaptureStack h c cs None) = {#cardKey c#} + keys cs"
    and "captureProper h s item sel None = Inr s'"
  shows "allCards s' = allCards s"
proof -
  let ?c = "draggedCard item"
  let ?all = "concat (map entityCards sel)"
  let ?P = "\<lambda>c. source c = Some FromHand \<and> sameCard c ?c"
  define flat where "flat = filter (\<lambda>c. \<not> ?P c) ?all"
  define grp where "grp = createCaptureStack h ?c flat None"
  from assms(6) assms(1,2) obtain mine where
    cp: "currentPlayer s < length (playerCaptures s)" and mine: "mine = playerCaptures s ! currentPlayer s"
    and s': "s' = nextPlayer (s\<lparr>playerHands := playerHands s,
        tableCards := removeCardsFromTable (tableCards s) sel,
        playerCaptures := (playerCaptures s)[currentPlayer s := mine @ [grp]],
        lastCapturer := Some (currentPlayer s)\<rparr>)"
    unfolding grp_def flat_def
    by (auto simp: captureProper_def Let_def at_def removeCardsFromTable_def
        split: option.splits if_splits)
  from assms(4) obtain hc where hc: "filter ?P ?all = [hc]"
    by (cases "filter ?P ?all") auto
  then have "hc \<in> set (filter ?P ?all)" by simp
  then have k: "cardKey hc = cardKey ?c" by (simp add: sameCard_key)
  have "keys ?all = keys (filter ?P ?all) + keys flat"
    unfolding flat_def by (rule keys_filter_split [symmetric])
  then have fl: "tableKeys sel = {#cardKey ?c#} + keys flat"
    by (simp only: hc tableKeys_def keys_simps k)
  have g: "keys grp = tableKeys sel"
    unfolding grp_def by (simp only: assms(5) fl)
  from present_removed [OF assms(3)]
  have t: "tableKeys (tableCards s) = tableKeys (removeCardsFromTable (tableCards s) sel) + tableKeys sel"
    by simp
  from captures_update [OF cp, of "mine @ [grp]"] mine
  have c: "keys (concat (concat ((playerCaptures s)[currentPlayer s := mine @ [grp]])))
      = keys (concat (concat (playerCaptures s))) + tableKeys sel"
    by (simp add: g)
  show ?thesis
    unfolding s' allCards_nextPlayer
    by (simp add: allCards_def t c)
qed

lemma captureProper_returns':
  assumes "currentPlayer s \<le> 1" "length (playerCaptures s) = 2"
  shows "\<exists>s'. captureProper h s item sel opp = Inr s'"
proof -
  have l: "currentPlayer s < length (playerCaptures s)" "1 - currentPlayer s < length (playerCaptures s)"
    using assms by arith+
  show ?thesis
    using assms(1) l
    by (auto simp: captureProper_def Let_def at_def setAt_def split: option.splits)
qed

lemma handleCapture_conserves:
  assumes "currentPlayer s \<le> 1" "length (playerCaptures s) = 2"
    and "draggedSource item = FromHand"
    and "distinct (buildIds (tableCards s))" "presentOnTable sel (tableCards s)"
    and "\<And>c cs. keys (createCaptureStack h c cs None) = {#cardKey c#} + keys cs"
    and "\<not> list_ex isTemporaryStack sel
         \<or> (removeCardFromHand (playerHands s) (currentPlayer s) (draggedCard item) = None
            \<and> length (filter (\<lambda>c. source c = Some FromHand \<and> sameCard c (draggedCard item))
                 (concat (map entityCards sel))) = 1)"
  shows "\<exists>s'. handleCapture h s item sel None newId = Inr s' \<and> allCards s' = allCards s"
proof (cases "captureAsReinforce h s item sel None newId")
  case (Some s')
  from captureAsReinforce_conserves [OF assms(4,5) Some] Some show ?thesis
    by (simp add: handleCapture_def)
next
  case None
  from captureProper_returns' [OF assms(1,2)] obtain s' where s': "captureProper h s item sel None = Inr s'"
    by blast
  have "allCards s' = allCards s"
  proof (cases "list_ex isTemporaryStack sel")
    case False
    from captureProper_conserves [OF assms(3) False assms(5,6) s'] show ?thesis .
  next
    case True
    with assms(7) have "length (filter (\<lambda>c. source c = Some FromHand \<and> sameCard c (draggedCard item))
                 (concat (map entityCards sel))) = 1" by blast
    from captureProper_finalizing_conserves [OF assms(3) True assms(5) this assms(6) s'] show ?thesis .
  qed
  with None s' show ?thesis by (simp add: handleCapture_def)
qed


lemma findIndex_None: "findIndex P xs = None \<longleftrightarrow> filter P xs = []"
  by (induction xs) simp_all

lemma present_stack_found:
  assumes "presentOnTable [TemporaryStack st] es"
  shows "findIndex (hasStackId (stackId st)) es \<noteq> None"
proof
  assume "findIndex (hasStackId (stackId st)) es = None"
  then have "filter (hasStackId (stackId st)) es = []" by (simp add: findIndex_None)
  then have "filter (\<lambda>item. list_ex (matchesItem item) [TemporaryStack st]) es = []"
    by (simp only: hasStackId_matches [symmetric])
  with assms have "mset ([] :: tableEntity list) = mset [TemporaryStack st]"
    by (simp only: presentOnTable_def)
  then show False by simp
qed

lemma handleAddToStagingStack_returns:
  assumes "presentOnTable [TemporaryStack st] (tableCards s)"
  shows "\<exists>s'. handleAddToStagingStack s hc st = Inr s'"
  using present_stack_found [OF assms]
  by (auto simp: handleAddToStagingStack_def Let_def split: option.splits)

lemma handleBuild_returns:
  assumes "currentPlayer s \<le> 1" "length (playerHands s) = 2"
  shows "\<exists>s'. handleBuild h s item tcs v big small newId = Inr s'"
proof -
  from assms have "currentPlayer s < length (playerHands s)" by arith
  then show ?thesis
    by (auto simp: handleBuild_def Let_def at_def split: option.splits)
qed

lemma startNextRound_returns:
  assumes "length (playerHands s) = 2"
  shows "\<exists>s'. startNextRound s = Inr s'"
proof -
  from assms obtain h0 h1 where "playerHands s = [h0, h1]"
    by (cases "playerHands s"; cases "tl (playerHands s)") auto
  then show ?thesis
    by (auto simp: startNextRound_def Let_def split: prod.splits)
qed

lemma handleTrailCard_conserves: "allCards (handleTrailCard s c player newId) = allCards s"
  by (simp add: handleTrailCard_def Let_def handleTrail_conserves handleStageSingle_conserves)







end
